theory Spec2Isabelle
  imports Complex_Main
begin

section \<open>JustTheChip: the speeds and feeds calculation engine\<close>

text \<open>
  A shallow embedding of \<^verbatim>\<open>src/calculations/speeds-feeds.js\<close> (class
  \<^verbatim>\<open>SpeedsFeedsCalculator\<close>), of the catalogs it reads and of the spindle check of
  \<^verbatim>\<open>calculations/validation.js\<close>.

  JavaScript numbers are modelled as real numbers: rounding error, NaN and the
  infinities are outside the model, so a division whose divisor is zero is only
  meaningful in the source (HOL gives it the value 0). An optional field is an
  \<open>option\<close>; an object used as a dictionary is a map from its string keys.
\<close>

subsection \<open>JavaScript operators\<close>

text \<open>\<^verbatim>\<open>v || d\<close> on a number that may be missing: an absent value and the number 0 are
  both falsy and give the default.\<close>

definition js_or :: "real option \<Rightarrow> real \<Rightarrow> real" where
  "js_or v d = (case v of None \<Rightarrow> d | Some a \<Rightarrow> if a = 0 then d else a)"

text \<open>\<^verbatim>\<open>Math.round\<close>: the nearest integer, a tie going up.\<close>

definition Math_round :: "real \<Rightarrow> real" where
  "Math_round a = of_int \<lfloor>a + 1 / 2\<rfloor>"

text \<open>\<^verbatim>\<open>Number.prototype.toFixed\<close> (for values below \<open>10^21\<close>): the integer \<open>n\<close>
  nearest to \<open>|a| * 10^f\<close>, the larger one at a tie, written in decimal with at least
  \<open>f + 1\<close> digits, a point before the last \<open>f\<close> digits and the sign of \<open>a\<close>.\<close>

definition digit_char :: "nat \<Rightarrow> char" where
  "digit_char d = ''0123456789'' ! d"

function nat_digits :: "nat \<Rightarrow> string" where
  "nat_digits n = (if n < 10 then [digit_char n] else nat_digits (n div 10) @ [digit_char (n mod 10)])"
  by pat_completeness auto
termination
  by (relation "measure id") auto

declare nat_digits.simps [simp del]

definition toFixed_n :: "nat \<Rightarrow> real \<Rightarrow> nat" where
  "toFixed_n f a = nat \<lfloor>\<bar>a\<bar> * 10 ^ f + 1 / 2\<rfloor>"

definition toFixed :: "nat \<Rightarrow> real \<Rightarrow> string" where
  "toFixed f a =
     (let m = nat_digits (toFixed_n f a);
          m = (if f = 0 then m
               else let m = replicate (f + 1 - length m) (CHR ''0'') @ m;
                        k = length m
                    in take (k - f) m @ ''.'' @ drop (k - f) m)
      in (if a < 0 then ''-'' else '''') @ m)"

text \<open>\<^verbatim>\<open>parseFloat(a.toFixed(f))\<close>: the number that the decimal string denotes.\<close>

definition parseFloat_toFixed :: "nat \<Rightarrow> real \<Rightarrow> real" where
  "parseFloat_toFixed f a = (if a < 0 then - 1 else 1) * real (toFixed_n f a) / 10 ^ f"

text \<open>\<^verbatim>\<open>s.includes(sub)\<close> on strings.\<close>

fun str_includes :: "string \<Rightarrow> string \<Rightarrow> bool" where
  "str_includes [] sub = (sub = [])"
| "str_includes (c # cs) sub = (take (length sub) (c # cs) = sub \<or> str_includes cs sub)"

subsection \<open>The records of a calculation request\<close>

record axis_feeds =
  feed_x :: real
  feed_y :: real
  feed_z :: real

record aggressiveness_factors =
  radial :: real
  axial :: real

record machine =
  max_feed_mm_min :: axis_feeds
  K_rigidity :: real
  m_aggressiveness :: aggressiveness_factors

record spindle =
  rated_power_kW :: real
  base_rpm :: real
  rpm_min :: real
  rpm_max :: real

text \<open>A tool: \<open>tool_type\<close> is the field \<^verbatim>\<open>type\<close>, \<open>tool_material\<close> the field
  \<^verbatim>\<open>material\<close>. The fields read through \<^verbatim>\<open>||\<close> are optional.\<close>

record tool =
  tool_type :: string
  diameter_mm :: real
  flutes :: "real option"
  tip_diameter_mm :: real
  angle_deg :: real
  taper_angle_deg :: real
  flute_length_mm :: "real option"
  min_bore_diameter_mm :: real
  insert_count :: "real option"
  teeth :: "real option"
  stickout_mm :: "real option"
  shank_mm :: "real option"
  tool_material :: string

record chipload_bucket =
  max_d_mm :: real
  fz_range :: "real \<times> real"

text \<open>A material: \<open>chip_thinning\<close> holds \<^verbatim>\<open>chip_thinning.enable_below_fraction\<close> when
  the material has a \<^verbatim>\<open>chip_thinning\<close> object.\<close>

record material =
  mat_id :: string
  category :: string
  vc_range :: "real \<times> real"
  fz_mm_per_tooth_by_diameter :: "chipload_bucket list"
  toolChiploadFactors :: "string \<rightharpoonup> real"
  max_radial_engagement_fraction :: "string \<rightharpoonup> real"
  max_axial_per_pass_D :: "string \<rightharpoonup> real"
  chip_thinning :: "real option"
  force_coeff_KN_mm2 :: real
  specific_cutting_energy_J_mm3 :: "real option"

text \<open>The fields of a \<^verbatim>\<open>SpeedsFeedsCalculator\<close> set by its constructor.\<close>

record calculator =
  machine :: machine
  spindle :: spindle
  tool :: tool
  material :: material
  cutType :: string
  aggressiveness :: real
  userDOC :: "real option"

record warning =
  severity :: string
  message :: string

subsection \<open>Catalog constants\<close>

text \<open>\<^verbatim>\<open>MATERIAL_CONSTANTS\<close> of \<^verbatim>\<open>data/materials.js\<close> (MPa).\<close>

definition CARBIDE_YOUNGS_MODULUS :: real where
  "CARBIDE_YOUNGS_MODULUS = 600000"

definition HSS_YOUNGS_MODULUS :: real where
  "HSS_YOUNGS_MODULUS = 210000"

text \<open>\<^verbatim>\<open>DEFLECTION_CONSTANTS.TOOL_HOLDER_COMPLIANCE\<close> of \<^verbatim>\<open>utils/constants.js\<close>
  (mm/N).\<close>

datatype holder_type = COLLET | SHRINK_FIT | HYDRAULIC | POOR_SETUP

fun TOOL_HOLDER_COMPLIANCE :: "holder_type \<Rightarrow> real" where
  "TOOL_HOLDER_COMPLIANCE COLLET = 0.001"
| "TOOL_HOLDER_COMPLIANCE SHRINK_FIT = 0.0005"
| "TOOL_HOLDER_COMPLIANCE HYDRAULIC = 0.0003"
| "TOOL_HOLDER_COMPLIANCE POOR_SETUP = 0.005"

text \<open>\<^verbatim>\<open>CUT_TYPES\<close> of \<^verbatim>\<open>data/tools.js\<close>: every entry has either a single
  \<^verbatim>\<open>ae_fraction\<close> or an \<^verbatim>\<open>ae_fraction_range\<close>, and an \<^verbatim>\<open>ap_fraction_range\<close>.\<close>

datatype ae_spec = Ae_fraction real | Ae_fraction_range real real

record cut_definition =
  ae_part :: ae_spec
  ap_fraction_range :: "real \<times> real"

definition cut_def :: "ae_spec \<Rightarrow> real \<Rightarrow> real \<Rightarrow> cut_definition" where
  "cut_def a lo hi = \<lparr>ae_part = a, ap_fraction_range = (lo, hi)\<rparr>"

definition CUT_TYPES :: "string \<rightharpoonup> cut_definition" where
  "CUT_TYPES = map_of
     [(''slot'', cut_def (Ae_fraction 1.0) 0.8 1.0),
      (''profile'', cut_def (Ae_fraction_range 0.2 0.4) 1.0 1.5),
      (''adaptive'', cut_def (Ae_fraction_range 0.1 0.2) 1.5 3.0),
      (''facing'', cut_def (Ae_fraction_range 0.6 0.8) 0.1 0.3),
      (''plunge'', cut_def (Ae_fraction 1.0) 0.1 0.3),
      (''chamfer'', cut_def (Ae_fraction_range 0.3 0.5) 0.5 1.0),
      (''deburr'', cut_def (Ae_fraction_range 0.1 0.2) 0.1 0.3),
      (''countersink'', cut_def (Ae_fraction 1.0) 0.2 0.5),
      (''vcarve'', cut_def (Ae_fraction_range 0.8 1.0) 0.5 1.0),
      (''engraving'', cut_def (Ae_fraction_range 0.5 0.8) 0.1 0.3),
      (''shoulder'', cut_def (Ae_fraction_range 0.3 0.5) 0.8 1.2),
      (''ramping'', cut_def (Ae_fraction_range 0.4 0.6) 0.2 0.4),
      (''drilling'', cut_def (Ae_fraction 1.0) 2.0 5.0),
      (''spot_drill'', cut_def (Ae_fraction 1.0) 0.2 0.5),
      (''peck_drill'', cut_def (Ae_fraction 1.0) 0.5 1.5),
      (''thread_mill'', cut_def (Ae_fraction_range 0.6 0.8) 0.3 0.5),
      (''helical'', cut_def (Ae_fraction_range 0.4 0.6) 0.2 0.4),
      (''3d_contour'', cut_def (Ae_fraction_range 0.1 0.3) 0.1 0.5),
      (''draft_angle'', cut_def (Ae_fraction_range 0.2 0.4) 0.8 1.5),
      (''boring'', cut_def (Ae_fraction 1.0) 0.3 0.6),
      (''internal_profile'', cut_def (Ae_fraction_range 0.2 0.4) 0.5 1.0),
      (''slitting'', cut_def (Ae_fraction 1.0) 8.0 15.0),
      (''grooving'', cut_def (Ae_fraction 1.0) 5.0 10.0)]"

text \<open>The spindle \<^verbatim>\<open>dewalt_611\<close> of \<^verbatim>\<open>SPINDLE_TYPES\<close> (\<^verbatim>\<open>data/spindles.js\<close>).\<close>

definition dewalt_611 :: spindle where
  "dewalt_611 = \<lparr>rated_power_kW = 1.25, base_rpm = 16000, rpm_min = 16000, rpm_max = 27000\<rparr>"

subsection \<open>Tool geometry and table lookups\<close>

definition getEffectiveDiameter :: "calculator \<Rightarrow> real" where
  "getEffectiveDiameter c =
     (let t = tool c in
      if tool_type t = ''vbit'' then
        (let angle_rad = (angle_deg t * pi) / 180;
             ap_assumed = 2
         in tip_diameter_mm t + 2 * ap_assumed * tan (angle_rad / 2))
      else if tool_type t = ''chamfer'' then diameter_mm t
      else if tool_type t = ''tapered'' then
        (let taper_rad = (taper_angle_deg t * pi) / 180;
             depth = js_or (flute_length_mm t) 10
         in tip_diameter_mm t + depth * tan taper_rad)
      else if tool_type t = ''boring'' then min_bore_diameter_mm t
      else if tool_type t = ''slitting'' \<or> tool_type t = ''facemill'' then diameter_mm t
      else diameter_mm t)"

definition getEffectiveFlutes :: "calculator \<Rightarrow> real" where
  "getEffectiveFlutes c =
     (let t = tool c in
      if tool_type t = ''facemill'' then js_or (insert_count t) 4
      else if tool_type t = ''slitting'' then js_or (teeth t) 40
      else if tool_type t = ''boring'' then 1
      else js_or (flutes t) 2)"

definition speedFactors :: "string \<rightharpoonup> real" where
  "speedFactors = map_of
     [(''slot'', 1.0), (''profile'', 1.2), (''adaptive'', 1.3),
      (''facing'', 1.1), (''drilling'', 0.8), (''boring'', 0.9)]"

definition getSpeedFactor :: "calculator \<Rightarrow> real" where
  "getSpeedFactor c = js_or (speedFactors (cutType c)) 1.0"

text \<open>\<^verbatim>\<open>getChiploadRange\<close>: the first bucket whose \<^verbatim>\<open>max_d_mm\<close> reaches the diameter,
  else the last bucket. On an empty table the source reads \<^verbatim>\<open>.range\<close> of
  \<^verbatim>\<open>undefined\<close> and throws a TypeError: the value \<open>None\<close>.\<close>

fun first_bucket :: "real \<Rightarrow> chipload_bucket list \<Rightarrow> (real \<times> real) option" where
  "first_bucket diameter [] = None"
| "first_bucket diameter (b # bs) =
     (if diameter \<le> max_d_mm b then Some (fz_range b) else first_bucket diameter bs)"

definition getChiploadRange :: "calculator \<Rightarrow> real \<Rightarrow> (real \<times> real) option" where
  "getChiploadRange c diameter =
     (let ranges = fz_mm_per_tooth_by_diameter (material c) in
      case first_bucket diameter ranges of
        Some r \<Rightarrow> Some r
      | None \<Rightarrow> (if ranges = [] then None else Some (fz_range (last ranges))))"

text \<open>\<^verbatim>\<open>getCutDefinition\<close> returns the same object for every cut type.\<close>

definition getCutDefinition :: "calculator \<Rightarrow> cut_definition" where
  "getCutDefinition c = \<lparr>ae_part = Ae_fraction 0.3, ap_fraction_range = (0.5, 1.0)\<rparr>"

subsection \<open>Engagement\<close>

text \<open>The constants \<^verbatim>\<open>maxAe\<close> and \<^verbatim>\<open>maxAp\<close> of \<^verbatim>\<open>getBaseEngagementParams\<close>.\<close>

definition maxAe :: "calculator \<Rightarrow> real \<Rightarrow> real" where
  "maxAe c D = D * js_or (max_radial_engagement_fraction (material c) (cutType c)) 0.3"

definition maxAp :: "calculator \<Rightarrow> real \<Rightarrow> real" where
  "maxAp c D = D * js_or (max_axial_per_pass_D (material c) (cutType c)) 1.0"

definition getBaseEngagementParams :: "calculator \<Rightarrow> real \<Rightarrow> real \<times> real" where
  "getBaseEngagementParams c D =
     (let cutDef = getCutDefinition c in
      if tool_type (tool c) = ''drill'' then (D, D * 0.5)
      else if tool_type (tool c) = ''vbit'' then
        (let angle_rad = (angle_deg (tool c) * pi) / 180;
             estimatedDepth = tip_diameter_mm (tool c) + 2
         in (estimatedDepth * tan (angle_rad / 2) * 2, estimatedDepth))
      else
        (let ae =
               (if cutType c = ''slot'' then D
                else
                  (let aeRange = (case ae_part cutDef of
                                    Ae_fraction_range lo hi \<Rightarrow> (lo, hi)
                                  | Ae_fraction f \<Rightarrow> (f, f));
                       aeFraction = (fst aeRange + snd aeRange) / 2
                   in min (D * aeFraction) (maxAe c D) * radial (m_aggressiveness (machine c))));
             apRange = ap_fraction_range cutDef;
             apFraction = (fst apRange + snd apRange) / 2;
             ap = min (D * apFraction) (maxAp c D) * axial (m_aggressiveness (machine c))
         in (ae, ap)))"

definition getMaxAllowableDOC :: "calculator \<Rightarrow> real \<Rightarrow> real" where
  "getMaxAllowableDOC c D =
     (let matLimits = js_or (max_axial_per_pass_D (material c) (cutType c)) 1.0
      in D * matLimits)"

text \<open>\<^verbatim>\<open>getEngagementParams\<close> returns \<open>(ae, ap)\<close> and pushes to the warning list,
  which is passed in and returned.\<close>

definition getEngagementParams ::
  "calculator \<Rightarrow> real \<Rightarrow> warning list \<Rightarrow> (real \<times> real) \<times> warning list" where
  "getEngagementParams c D ws =
     (let (baseAe, baseAp) = getBaseEngagementParams c D;
          ap = (case userDOC c of Some u \<Rightarrow> u | None \<Rightarrow> baseAp);
          ws = (case userDOC c of
                  None \<Rightarrow> ws
                | Some u \<Rightarrow>
                    (let maxAp = getMaxAllowableDOC c D in
                     if ap > maxAp then
                       ws @ [\<lparr>severity = ''warning'',
                              message = ''User DOC ('' @ toFixed 2 ap @
                                ''mm) exceeds recommended maximum ('' @ toFixed 2 maxAp @ ''mm)''\<rparr>]
                     else ws))
      in ((baseAe, ap), ws))"

subsection \<open>Power\<close>

definition getSpecificCuttingEnergy :: "calculator \<Rightarrow> real" where
  "getSpecificCuttingEnergy c =
     (let m = material c in
      if category m = ''metal'' then
        (if str_includes (mat_id m) ''aluminum'' then 0.5
         else if str_includes (mat_id m) ''steel'' then 2.5
         else if str_includes (mat_id m) ''stainless'' then 3.5
         else if str_includes (mat_id m) ''titanium'' then 5.0
         else 2.0)
      else if category m = ''plastic'' then 0.1
      else if category m = ''wood'' then 0.05
      else 1.0)"

definition getToolPowerFactor :: "calculator \<Rightarrow> real" where
  "getToolPowerFactor c =
     (if tool_type (tool c) = ''facemill'' then 0.7
      else if tool_type (tool c) = ''slitting'' then 1.2
      else if tool_type (tool c) = ''drill'' then 1.1
      else if tool_type (tool c) = ''endmill_ball'' then 0.9
      else 1.0)"

definition calculateImprovedPower :: "calculator \<Rightarrow> real \<Rightarrow> real \<Rightarrow> real \<Rightarrow> real" where
  "calculateImprovedPower c ae ap vf =
     (let MRR_mm3_min = ae * ap * vf;
          specificEnergy = js_or (specific_cutting_energy_J_mm3 (material c))
                                 (getSpecificCuttingEnergy c);
          cuttingPower = (MRR_mm3_min * specificEnergy) / 60;
          toolFactor = getToolPowerFactor c;
          cuttingPower = cuttingPower * toolFactor;
          cuttingPower = cuttingPower * K_rigidity (machine c);
          spindleLosses = cuttingPower * 0.15
      in cuttingPower + spindleLosses)"

definition calculateMRR :: "calculator \<Rightarrow> real \<Rightarrow> real \<Rightarrow> real \<Rightarrow> real \<Rightarrow> real" where
  "calculateMRR c D ae ap vf =
     (if tool_type (tool c) = ''drill'' then (pi * D * D / 4) * vf
      else ae * ap * vf)"

definition getSpindlePowerAtRPM :: "calculator \<Rightarrow> real \<Rightarrow> real" where
  "getSpindlePowerAtRPM c rpm =
     (let sp = spindle c;
          efficiency = 0.85
      in if rpm < rpm_min sp \<or> rpm > rpm_max sp then 0
         else
           (let availablePower =
                  (if rpm \<le> base_rpm sp then
                     (let torqueRatio = min (rpm / (rpm_min sp * 1.5)) 1.0
                      in rated_power_kW sp * 1000 * (rpm / base_rpm sp) * torqueRatio)
                   else rated_power_kW sp * 1000)
            in availablePower * efficiency))"

subsection \<open>Force and deflection\<close>

definition calculateCuttingForce :: "calculator \<Rightarrow> real \<Rightarrow> real \<Rightarrow> real \<Rightarrow> real" where
  "calculateCuttingForce c ae ap fz =
     (let K = force_coeff_KN_mm2 (material c);
          area = ae * fz;
          forceFactor =
            (if tool_type (tool c) = ''drill'' then 1.5
             else if tool_type (tool c) = ''vbit'' \<or> tool_type (tool c) = ''chamfer'' then 0.7
             else if tool_type (tool c) = ''facemill'' then 0.6
             else 1.0)
      in K * area * 1000 * forceFactor)"

text \<open>The three terms of \<^verbatim>\<open>calculateImprovedDeflection\<close>, with its constants
  \<^verbatim>\<open>L\<close>, \<^verbatim>\<open>d\<close> and \<^verbatim>\<open>E\<close>.\<close>

definition deflection_L :: "calculator \<Rightarrow> real" where
  "deflection_L c = js_or (stickout_mm (tool c)) 20"

definition deflection_d :: "calculator \<Rightarrow> real" where
  "deflection_d c = js_or (shank_mm (tool c)) (diameter_mm (tool c))"

definition deflection_E :: "calculator \<Rightarrow> real" where
  "deflection_E c =
     (if tool_material (tool c) = ''hss'' then HSS_YOUNGS_MODULUS else CARBIDE_YOUNGS_MODULUS)"

definition bendingDeflection :: "calculator \<Rightarrow> real \<Rightarrow> real" where
  "bendingDeflection c force =
     (let L = deflection_L c; d = deflection_d c; E = deflection_E c;
          I = pi * d ^ 4 / 64
      in (force * L ^ 3) / (3 * E * I))"

definition shearDeflection :: "calculator \<Rightarrow> real \<Rightarrow> real" where
  "shearDeflection c force =
     (let L = deflection_L c; d = deflection_d c; E = deflection_E c;
          G = E / 2.6;
          A = pi * d ^ 2 / 4
      in (1.2 * force * L) / (G * A))"

definition holderDeflection :: "real \<Rightarrow> real" where
  "holderDeflection force = (let holderCompliance = 0.002 in force * holderCompliance)"

definition calculateImprovedDeflection :: "calculator \<Rightarrow> real \<Rightarrow> real" where
  "calculateImprovedDeflection c force =
     bendingDeflection c force + shearDeflection c force + holderDeflection force"

subsection \<open>Diagnostics\<close>

definition validateChipload ::
  "calculator \<Rightarrow> real \<Rightarrow> real \<times> real \<Rightarrow> warning list \<Rightarrow> warning list" where
  "validateChipload c fzAdjusted fzRange ws =
     (let minChipload = fst fzRange * 0.5;
          ws = (if fzAdjusted < minChipload \<and>
                   tool_type (tool c) \<noteq> ''drill'' \<and> tool_type (tool c) \<noteq> ''boring''
                then ws @ [\<lparr>severity = ''danger'', message = ''Chipload too low - rubbing risk''\<rparr>]
                else ws);
          maxChipload = snd fzRange * 1.5
      in if fzAdjusted > maxChipload
         then ws @ [\<lparr>severity = ''warning'',
                      message = ''Chipload very high - check tool strength''\<rparr>]
         else ws)"

definition addToolSpecificWarnings ::
  "calculator \<Rightarrow> real \<Rightarrow> real \<Rightarrow> real \<Rightarrow> real \<Rightarrow> warning list \<Rightarrow> warning list" where
  "addToolSpecificWarnings c D ap vf cuttingForce ws =
     (let ws = (if tool_type (tool c) = ''vbit'' \<and> ap > D * 0.5
                then ws @ [\<lparr>severity = ''warning'',
                             message = ''Deep V-carve - consider multiple passes''\<rparr>]
                else ws);
          ws = (if tool_type (tool c) = ''slitting'' \<and> vf > 500
                then ws @ [\<lparr>severity = ''warning'',
                             message = ''High feed for slitting saw - watch for blade flex''\<rparr>]
                else ws);
          ws = (if tool_type (tool c) = ''boring'' \<and> cuttingForce > 100
                then ws @ [\<lparr>severity = ''warning'',
                             message = ''High boring force - check bar rigidity''\<rparr>]
                else ws);
          ws = (if D < 1.0 \<and> cuttingForce > 10
                then ws @ [\<lparr>severity = ''warning'', message = ''Small tool - risk of breakage''\<rparr>]
                else ws)
      in case userDOC c of
           Some u \<Rightarrow>
             if u > D * 2
             then ws @ [\<lparr>severity = ''warning'',
                          message = ''Very deep DOC - ensure adequate chip evacuation''\<rparr>]
             else ws
         | None \<Rightarrow> ws)"

subsection \<open>The method calculate\<close>

text \<open>
  The local variables of \<^verbatim>\<open>calculate\<close> that are assigned more than once or read by a
  later step, and the warning list \<^verbatim>\<open>this.warnings\<close>. Each step below is a run of
  consecutive statements of \<^verbatim>\<open>calculate\<close>, a function from the variables before it to
  the variables after it. \<^verbatim>\<open>D\<close>, \<^verbatim>\<open>z\<close> and \<^verbatim>\<open>fzRange\<close> are assigned once.
\<close>

record locals =
  l_rpm :: real
  l_fz :: real
  l_ae :: real
  l_ap :: real
  l_vf :: real
  l_fzAdjusted :: real
  l_mrr :: real
  l_powerRequired :: real
  l_powerAvailable :: real
  l_cuttingForce :: real
  l_deflection :: real
  l_warnings :: "warning list"

text \<open>Line 19: the warning list starts empty. No variable is read before its step
  assigns it.\<close>

definition start :: locals where
  "start = \<lparr>l_rpm = 0, l_fz = 0, l_ae = 0, l_ap = 0, l_vf = 0, l_fzAdjusted = 0, l_mrr = 0,
             l_powerRequired = 0, l_powerAvailable = 0, l_cuttingForce = 0, l_deflection = 0,
             l_warnings = []\<rparr>"

text \<open>Lines 26 to 33: the spindle speed from the surface speed.\<close>

definition nominalRPM :: "calculator \<Rightarrow> real" where
  "nominalRPM c =
     (let D = getEffectiveDiameter c;
          speedFactor = getSpeedFactor c;
          vcRange = vc_range (material c);
          vc = (fst vcRange + snd vcRange) / 2 * speedFactor * aggressiveness c
      in (vc * 1000) / (pi * D))"

text \<open>Lines 36 to 43: the clamp to the spindle's limits.\<close>

definition resolveRPM :: "calculator \<Rightarrow> locals \<Rightarrow> locals" where
  "resolveRPM c s =
     (let rpm = nominalRPM c
      in if rpm < rpm_min (spindle c) then
           s\<lparr>l_rpm := rpm_min (spindle c),
             l_warnings := l_warnings s @
               [\<lparr>severity = ''warning'', message = ''RPM limited by spindle minimum''\<rparr>]\<rparr>
         else if rpm > rpm_max (spindle c) then
           s\<lparr>l_rpm := rpm_max (spindle c),
             l_warnings := l_warnings s @
               [\<lparr>severity = ''warning'', message = ''RPM limited by spindle maximum''\<rparr>]\<rparr>
         else s\<lparr>l_rpm := rpm\<rparr>)"

text \<open>Lines 47 and 48: the feed per tooth from the chip load range.\<close>

definition nominalChipload :: "calculator \<Rightarrow> real \<times> real \<Rightarrow> locals \<Rightarrow> locals" where
  "nominalChipload c fzRange s =
     (let toolFactor = js_or (toolChiploadFactors (material c) (tool_type (tool c))) 1.0
      in s\<lparr>l_fz := (fst fzRange + snd fzRange) / 2 * aggressiveness c * toolFactor\<rparr>)"

text \<open>Line 51.\<close>

definition resolveEngagement :: "calculator \<Rightarrow> locals \<Rightarrow> locals" where
  "resolveEngagement c s =
     (let ((ae, ap), ws) = getEngagementParams c (getEffectiveDiameter c) (l_warnings s)
      in s\<lparr>l_ae := ae, l_ap := ap, l_warnings := ws\<rparr>)"

text \<open>Lines 54 to 58: chip thinning.\<close>

definition chipThinning :: "calculator \<Rightarrow> locals \<Rightarrow> locals" where
  "chipThinning c s =
     (let D = getEffectiveDiameter c in
      case chip_thinning (material c) of
        None \<Rightarrow> s
      | Some enable_below_fraction \<Rightarrow>
          if l_ae s < D * enable_below_fraction then
            (let thinningFactor = sqrt (D / l_ae s)
             in s\<lparr>l_fz := l_fz s * thinningFactor,
                  l_warnings := l_warnings s @
                    [\<lparr>severity = ''info'', message = ''Chip thinning compensation applied''\<rparr>]\<rparr>)
          else s)"

text \<open>Lines 61 to 74: the feed rate and the machine's feed limit.\<close>

definition feedRate :: "calculator \<Rightarrow> locals \<Rightarrow> locals" where
  "feedRate c s =
     (let z = getEffectiveFlutes c;
          vf = l_rpm s * z * l_fz s;
          maxFeed = min (min (feed_x (max_feed_mm_min (machine c)))
                             (feed_y (max_feed_mm_min (machine c))))
                        (feed_z (max_feed_mm_min (machine c)))
      in if vf > maxFeed then
           s\<lparr>l_vf := maxFeed, l_fzAdjusted := maxFeed / (l_rpm s * z),
             l_warnings := l_warnings s @
               [\<lparr>severity = ''warning'', message = ''Feed limited by machine''\<rparr>]\<rparr>
         else s\<lparr>l_vf := vf, l_fzAdjusted := l_fz s\<rparr>)"

text \<open>Lines 77 to 81: removal rate, required and available power.\<close>

definition powerBudget :: "calculator \<Rightarrow> locals \<Rightarrow> locals" where
  "powerBudget c s =
     s\<lparr>l_mrr := calculateMRR c (getEffectiveDiameter c) (l_ae s) (l_ap s) (l_vf s),
       l_powerRequired := calculateImprovedPower c (l_ae s) (l_ap s) (l_vf s),
       l_powerAvailable := getSpindlePowerAtRPM c (l_rpm s)\<rparr>"

text \<open>Lines 84 to 90: power limiting.\<close>

definition powerLimiting :: "locals \<Rightarrow> locals" where
  "powerLimiting s =
     (if l_powerRequired s > l_powerAvailable s * 0.9 then
        (let powerRatio = (l_powerAvailable s * 0.85) / l_powerRequired s
         in s\<lparr>l_vf := l_vf s * powerRatio,
              l_fzAdjusted := l_fzAdjusted s * powerRatio,
              l_mrr := l_mrr s * powerRatio,
              l_warnings := l_warnings s @
                [\<lparr>severity = ''warning'', message = ''Power limited''\<rparr>]\<rparr>)
      else s)"

text \<open>Line 93.\<close>

definition cuttingForces :: "calculator \<Rightarrow> locals \<Rightarrow> locals" where
  "cuttingForces c s =
     s\<lparr>l_cuttingForce := calculateCuttingForce c (l_ae s) (l_ap s) (l_fzAdjusted s)\<rparr>"

text \<open>Lines 96 to 104: the deflection and its diagnostic.\<close>

definition toolDeflection :: "calculator \<Rightarrow> locals \<Rightarrow> locals" where
  "toolDeflection c s =
     (if tool_type (tool c) \<in> set [''endmill_flat'', ''endmill_ball'', ''tapered''] then
        (let deflection = calculateImprovedDeflection c (l_cuttingForce s) in
         if deflection > 0.05 then
           s\<lparr>l_deflection := deflection,
             l_warnings := l_warnings s @
               [\<lparr>severity = ''danger'',
                 message = ''High deflection: '' @ toFixed 3 deflection @ ''mm''\<rparr>]\<rparr>
         else if deflection > 0.02 then
           s\<lparr>l_deflection := deflection,
             l_warnings := l_warnings s @
               [\<lparr>severity = ''warning'',
                 message = ''Moderate deflection: '' @ toFixed 3 deflection @ ''mm''\<rparr>]\<rparr>
         else s\<lparr>l_deflection := deflection\<rparr>)
      else s\<lparr>l_deflection := 0\<rparr>)"

text \<open>Lines 107 to 110: the chip load check and the tool-specific warnings.\<close>

definition finalChecks :: "calculator \<Rightarrow> real \<times> real \<Rightarrow> locals \<Rightarrow> locals" where
  "finalChecks c fzRange s =
     (let ws = validateChipload c (l_fzAdjusted s) fzRange (l_warnings s);
          ws = addToolSpecificWarnings c (getEffectiveDiameter c) (l_ap s) (l_vf s)
                 (l_cuttingForce s) ws
      in s\<lparr>l_warnings := ws\<rparr>)"

text \<open>The steps in the order of the source, up to each point a property is about.\<close>

definition beforeThinning :: "calculator \<Rightarrow> real \<times> real \<Rightarrow> locals" where
  "beforeThinning c fzRange = resolveEngagement c (nominalChipload c fzRange (resolveRPM c start))"

definition beforeLimiting :: "calculator \<Rightarrow> real \<times> real \<Rightarrow> locals" where
  "beforeLimiting c fzRange = powerBudget c (feedRate c (chipThinning c (beforeThinning c fzRange)))"

definition beforeDeflection :: "calculator \<Rightarrow> real \<times> real \<Rightarrow> locals" where
  "beforeDeflection c fzRange = cuttingForces c (powerLimiting (beforeLimiting c fzRange))"

definition run :: "calculator \<Rightarrow> real \<times> real \<Rightarrow> locals" where
  "run c fzRange = finalChecks c fzRange (toolDeflection c (beforeDeflection c fzRange))"

text \<open>Lines 113 to 135: the returned object.\<close>

record result =
  r_rpm :: real
  r_feed_mm_min :: real
  r_fz_mm :: real
  r_fz_actual_mm :: real
  r_ae_mm :: real
  r_ap_mm :: real
  r_doc_mm :: real
  r_mrr_mm3_min :: real
  r_power_W :: real
  r_power_available_W :: real
  r_force_N :: real
  r_deflection_mm :: real
  r_vc_m_min :: real
  r_sfm :: real
  r_warnings :: "warning list"
  r_toolType :: string
  r_effectiveDiameter :: real
  r_user_doc_override :: bool

definition report :: "calculator \<Rightarrow> locals \<Rightarrow> result" where
  "report c s =
     (let D = getEffectiveDiameter c;
          vcActual = (pi * D * l_rpm s) / 1000;
          sfmActual = vcActual * 3.28084
      in \<lparr>r_rpm = Math_round (l_rpm s),
          r_feed_mm_min = Math_round (l_vf s),
          r_fz_mm = parseFloat_toFixed 4 (l_fzAdjusted s),
          r_fz_actual_mm = parseFloat_toFixed 4 (l_fz s),
          r_ae_mm = parseFloat_toFixed 2 (l_ae s),
          r_ap_mm = parseFloat_toFixed 2 (l_ap s),
          r_doc_mm = parseFloat_toFixed 2 (l_ap s),
          r_mrr_mm3_min = Math_round (l_mrr s),
          r_power_W = Math_round (l_powerRequired s),
          r_power_available_W = Math_round (l_powerAvailable s),
          r_force_N = Math_round (l_cuttingForce s),
          r_deflection_mm = parseFloat_toFixed 4 (l_deflection s),
          r_vc_m_min = Math_round vcActual,
          r_sfm = Math_round sfmActual,
          r_warnings = l_warnings s,
          r_toolType = tool_type (tool c),
          r_effectiveDiameter = parseFloat_toFixed 2 D,
          r_user_doc_override = (userDOC c \<noteq> None)\<rparr>)"

text \<open>\<^verbatim>\<open>calculate\<close>: \<open>None\<close> is the TypeError of \<^verbatim>\<open>getChiploadRange\<close> (line 46); the
  source has no other throw on a request of this shape.\<close>

definition calculate :: "calculator \<Rightarrow> result option" where
  "calculate c =
     (case getChiploadRange c (getEffectiveDiameter c) of
        None \<Rightarrow> None
      | Some fzRange \<Rightarrow> Some (report c (run c fzRange)))"

subsection \<open>The spindle check of the input validation\<close>

text \<open>The error list of \<^verbatim>\<open>validateSpindle\<close> (\<^verbatim>\<open>calculations/validation.js\<close>) on a
  spindle whose fields are numbers; \<^verbatim>\<open>isValidNumber\<close> holds of every real. The application
  runs the calculator only when the validation reports no error.\<close>

definition validateSpindle :: "spindle \<Rightarrow> string list" where
  "validateSpindle sp =
     (if rated_power_kW sp \<le> 0 then [''Spindle power rating must be positive''] else []) @
     (if rpm_min sp \<le> 0 then [''Minimum RPM must be positive''] else []) @
     (if rpm_max sp \<le> 0 then [''Maximum RPM must be positive''] else []) @
     (if rpm_min sp \<ge> rpm_max sp then [''Maximum RPM must be greater than minimum RPM''] else []) @
     (if base_rpm sp \<noteq> 0 \<and> (base_rpm sp < rpm_min sp \<or> base_rpm sp > rpm_max sp)
      then [''Base RPM must be within min/max RPM range''] else [])"

subsection \<open>Catalog entries used as concrete inputs\<close>

text \<open>The machine preset \<^verbatim>\<open>printnc\<close>, the spindle \<^verbatim>\<open>water_2_2kw\<close>, the material
  \<^verbatim>\<open>al_6061_t6\<close> and the tool, cut type and aggressiveness the application starts
  with (\<^verbatim>\<open>app.js\<close>). Fields the tool object lacks are absent or, where the calculator
  never reads them for this tool type, zero.\<close>

definition printnc :: machine where
  "printnc = \<lparr>max_feed_mm_min = \<lparr>feed_x = 6000, feed_y = 6000, feed_z = 2000\<rparr>,
               K_rigidity = 1.0,
               m_aggressiveness = \<lparr>radial = 1.0, axial = 1.0\<rparr>\<rparr>"

definition water_2_2kw :: spindle where
  "water_2_2kw = \<lparr>rated_power_kW = 2.2, base_rpm = 12000, rpm_min = 6000, rpm_max = 24000\<rparr>"

definition al_6061_t6 :: material where
  "al_6061_t6 =
     \<lparr>mat_id = ''al_6061_t6'', category = ''metal'', vc_range = (76, 305),
      fz_mm_per_tooth_by_diameter =
        [\<lparr>max_d_mm = 3, fz_range = (0.008, 0.025)\<rparr>,
         \<lparr>max_d_mm = 6, fz_range = (0.020, 0.050)\<rparr>,
         \<lparr>max_d_mm = 10, fz_range = (0.040, 0.080)\<rparr>,
         \<lparr>max_d_mm = 20, fz_range = (0.060, 0.120)\<rparr>],
      toolChiploadFactors = map_of
        [(''endmill_flat'', 1.0), (''endmill_ball'', 0.8), (''chamfer'', 0.7), (''vbit'', 0.6),
         (''facemill'', 1.3), (''drill'', 0.5), (''threadmill'', 0.4), (''tapered'', 0.85),
         (''boring'', 0.7), (''slitting'', 0.6)],
      max_radial_engagement_fraction = map_of
        [(''slot'', 1.0), (''profile'', 0.35), (''adaptive'', 0.15), (''facing'', 0.75),
         (''chamfer'', 0.4), (''vcarve'', 0.8), (''drilling'', 1.0), (''boring'', 1.0)],
      max_axial_per_pass_D = map_of
        [(''slot'', 1.0), (''profile'', 1.5), (''adaptive'', 2.0), (''facing'', 0.2),
         (''chamfer'', 0.5), (''vcarve'', 0.8), (''drilling'', 3.0), (''boring'', 0.5)],
      chip_thinning = Some 0.5,
      force_coeff_KN_mm2 = 0.7,
      specific_cutting_energy_J_mm3 = Some 0.5\<rparr>"

definition default_tool :: tool where
  "default_tool =
     \<lparr>tool_type = ''endmill_flat'', diameter_mm = 6, flutes = Some 4, tip_diameter_mm = 0,
      angle_deg = 0, taper_angle_deg = 0, flute_length_mm = None, min_bore_diameter_mm = 0,
      insert_count = None, teeth = None, stickout_mm = Some 25, shank_mm = Some 6,
      tool_material = ''carbide''\<rparr>"

definition default_request :: calculator where
  "default_request =
     \<lparr>machine = printnc, spindle = water_2_2kw, tool = default_tool, material = al_6061_t6,
      cutType = ''profile'', aggressiveness = 1.0, userDOC = None\<rparr>"

text \<open>Scenario D of the specification: a carbide end mill with a 3 mm shank and 40 mm
  stickout.\<close>

definition scenario_D :: calculator where
  "scenario_D = default_request\<lparr>tool :=
     default_tool\<lparr>diameter_mm := 3, shank_mm := Some 3, stickout_mm := Some 40\<rparr>\<rparr>"

text \<open>A drill of 10 mm in place of the application's tool.\<close>

definition drill_request :: calculator where
  "drill_request = default_request\<lparr>tool := default_tool\<lparr>tool_type := ''drill'', diameter_mm := 10\<rparr>,
                                   cutType := ''drilling''\<rparr>"

text \<open>The application's request with the cut type \<^verbatim>\<open>plunge\<close>, which the flat end mill
  supports and for which the material \<^verbatim>\<open>al_6061_t6\<close> has no engagement entry.\<close>

definition plunge_request :: calculator where
  "plunge_request = default_request\<lparr>cutType := ''plunge''\<rparr>"

text \<open>The application's request with a 20 mm tool and the cut type \<^verbatim>\<open>slot\<close>: the
  spindle speed is clamped to the minimum, the feed to the machine's limit, and the power
  is limited.\<close>

definition slot20 :: calculator where
  "slot20 = default_request\<lparr>tool := default_tool\<lparr>diameter_mm := 20, shank_mm := Some 20\<rparr>,
                            cutType := ''slot''\<rparr>"

text \<open>The request \<open>slot20\<close> with the spindle's rated power replaced.\<close>

definition slot20_rated :: "real \<Rightarrow> calculator" where
  "slot20_rated p = slot20\<lparr>spindle := water_2_2kw\<lparr>rated_power_kW := p\<rparr>\<rparr>"

text \<open>The spindle \<^verbatim>\<open>manual_r8\<close> of \<^verbatim>\<open>SPINDLE_TYPES\<close>, and the application's request with it:
  the spindle speed is clamped to the maximum and the feed stays under the machine's limit.\<close>

definition manual_r8 :: spindle where
  "manual_r8 = \<lparr>rated_power_kW = 1.5, base_rpm = 1000, rpm_min = 100, rpm_max = 4000\<rparr>"

definition manual_request :: calculator where
  "manual_request = default_request\<lparr>spindle := manual_r8\<rparr>"

text \<open>The deflection is linear in the force, so \<open>force_for c d\<close> is the cutting force under
  which the tool of \<open>c\<close> deflects by \<open>d\<close>.\<close>

definition force_for :: "calculator \<Rightarrow> real \<Rightarrow> real" where
  "force_for c d = d / calculateImprovedDeflection c 1"

subsection \<open>The axial engagement as the specification words it\<close>

text \<open>
  The axial engagement in the specification's words, for a tool that is neither a drill nor
  a V-bit: the nominal fraction is the midpoint of the axial range of the requested cut
  type's entry in \<^verbatim>\<open>CUT_TYPES\<close>. It is \<open>None\<close> for a cut type the catalog lacks.
\<close>

definition spec_nominal_ap_fraction :: "string \<Rightarrow> real option" where
  "spec_nominal_ap_fraction ct =
     map_option (\<lambda>d. (fst (ap_fraction_range d) + snd (ap_fraction_range d)) / 2) (CUT_TYPES ct)"

definition spec_ap :: "calculator \<Rightarrow> real \<Rightarrow> real option" where
  "spec_ap c D =
     map_option
       (\<lambda>nominal. min (D * nominal) (D * js_or (max_axial_per_pass_D (material c) (cutType c)) 1.0) *
          axial (m_aggressiveness (machine c)))
       (spec_nominal_ap_fraction (cutType c))"

section \<open>Properties\<close>

subsection \<open>What each step leaves unchanged\<close>

lemma resolveRPM_frame:
  "l_fz (resolveRPM c s) = l_fz s" "l_ae (resolveRPM c s) = l_ae s" "l_ap (resolveRPM c s) = l_ap s"
  by (simp_all add: resolveRPM_def Let_def)

lemma nominalChipload_frame:
  "l_rpm (nominalChipload c r s) = l_rpm s" "l_ae (nominalChipload c r s) = l_ae s"
  "l_ap (nominalChipload c r s) = l_ap s" "l_warnings (nominalChipload c r s) = l_warnings s"
  by (simp_all add: nominalChipload_def Let_def)

lemma resolveEngagement_frame:
  "l_rpm (resolveEngagement c s) = l_rpm s" "l_fz (resolveEngagement c s) = l_fz s"
  by (simp_all add: resolveEngagement_def Let_def split: prod.splits)

lemma resolveEngagement_ae:
  "l_ae (resolveEngagement c s) = fst (getBaseEngagementParams c (getEffectiveDiameter c))"
  by (simp add: resolveEngagement_def getEngagementParams_def Let_def split: prod.splits option.splits)

lemma resolveEngagement_ap:
  "l_ap (resolveEngagement c s) =
     (case userDOC c of
        Some u \<Rightarrow> u
      | None \<Rightarrow> snd (getBaseEngagementParams c (getEffectiveDiameter c)))"
  by (simp add: resolveEngagement_def getEngagementParams_def Let_def split: prod.splits option.splits)

lemma chipThinning_frame:
  "l_rpm (chipThinning c s) = l_rpm s" "l_ae (chipThinning c s) = l_ae s"
  "l_ap (chipThinning c s) = l_ap s"
  by (simp_all add: chipThinning_def Let_def split: option.splits)

lemma feedRate_frame:
  "l_rpm (feedRate c s) = l_rpm s" "l_ae (feedRate c s) = l_ae s"
  "l_ap (feedRate c s) = l_ap s" "l_fz (feedRate c s) = l_fz s"
  by (simp_all add: feedRate_def Let_def)

lemma powerBudget_frame:
  "l_rpm (powerBudget c s) = l_rpm s" "l_ae (powerBudget c s) = l_ae s"
  "l_ap (powerBudget c s) = l_ap s" "l_fz (powerBudget c s) = l_fz s"
  "l_vf (powerBudget c s) = l_vf s" "l_fzAdjusted (powerBudget c s) = l_fzAdjusted s"
  "l_warnings (powerBudget c s) = l_warnings s"
  by (simp_all add: powerBudget_def)

lemma powerLimiting_frame:
  "l_rpm (powerLimiting s) = l_rpm s" "l_ae (powerLimiting s) = l_ae s"
  "l_ap (powerLimiting s) = l_ap s" "l_fz (powerLimiting s) = l_fz s"
  "l_powerRequired (powerLimiting s) = l_powerRequired s"
  "l_powerAvailable (powerLimiting s) = l_powerAvailable s"
  by (simp_all add: powerLimiting_def Let_def)

lemma cuttingForces_frame:
  "l_rpm (cuttingForces c s) = l_rpm s" "l_ae (cuttingForces c s) = l_ae s"
  "l_ap (cuttingForces c s) = l_ap s" "l_fz (cuttingForces c s) = l_fz s"
  "l_vf (cuttingForces c s) = l_vf s" "l_fzAdjusted (cuttingForces c s) = l_fzAdjusted s"
  "l_mrr (cuttingForces c s) = l_mrr s" "l_warnings (cuttingForces c s) = l_warnings s"
  by (simp_all add: cuttingForces_def)

lemma toolDeflection_frame:
  "l_rpm (toolDeflection c s) = l_rpm s" "l_ae (toolDeflection c s) = l_ae s"
  "l_ap (toolDeflection c s) = l_ap s" "l_fz (toolDeflection c s) = l_fz s"
  "l_vf (toolDeflection c s) = l_vf s" "l_fzAdjusted (toolDeflection c s) = l_fzAdjusted s"
  "l_mrr (toolDeflection c s) = l_mrr s" "l_cuttingForce (toolDeflection c s) = l_cuttingForce s"
  by (simp_all add: toolDeflection_def Let_def)

lemma finalChecks_frame:
  "l_rpm (finalChecks c r s) = l_rpm s" "l_ae (finalChecks c r s) = l_ae s"
  "l_ap (finalChecks c r s) = l_ap s" "l_fz (finalChecks c r s) = l_fz s"
  "l_vf (finalChecks c r s) = l_vf s" "l_fzAdjusted (finalChecks c r s) = l_fzAdjusted s"
  "l_mrr (finalChecks c r s) = l_mrr s" "l_cuttingForce (finalChecks c r s) = l_cuttingForce s"
  "l_deflection (finalChecks c r s) = l_deflection s"
  by (simp_all add: finalChecks_def Let_def)

lemmas frames = resolveRPM_frame nominalChipload_frame resolveEngagement_frame chipThinning_frame
  feedRate_frame powerBudget_frame powerLimiting_frame cuttingForces_frame toolDeflection_frame
  finalChecks_frame

lemma l_ae_run: "l_ae (run c fzRange) = fst (getBaseEngagementParams c (getEffectiveDiameter c))"
  by (simp add: run_def beforeDeflection_def beforeLimiting_def beforeThinning_def frames
      resolveEngagement_ae)

lemma l_ap_run:
  "l_ap (run c fzRange) =
     (case userDOC c of
        Some u \<Rightarrow> u
      | None \<Rightarrow> snd (getBaseEngagementParams c (getEffectiveDiameter c)))"
  by (simp add: run_def beforeDeflection_def beforeLimiting_def beforeThinning_def frames
      resolveEngagement_ap)

lemma getEffectiveDiameter_userDOC:
  "getEffectiveDiameter (c\<lparr>userDOC := u\<rparr>) = getEffectiveDiameter c"
  by (simp add: getEffectiveDiameter_def)

lemma getChiploadRange_userDOC:
  "getChiploadRange (c\<lparr>userDOC := u\<rparr>) D = getChiploadRange c D"
  by (simp add: getChiploadRange_def)

lemma getBaseEngagementParams_userDOC:
  "getBaseEngagementParams (c\<lparr>userDOC := u\<rparr>) D = getBaseEngagementParams c D"
  by (simp add: getBaseEngagementParams_def getCutDefinition_def maxAe_def maxAp_def Let_def)

subsection \<open>The depth-of-cut override\<close>

text \<open>\<^verbatim>\<open>calculate\<close> throws exactly on a material whose chip load table is empty.\<close>

lemma getChiploadRange_None:
  "getChiploadRange c D = None \<longleftrightarrow> fz_mm_per_tooth_by_diameter (material c) = []"
  by (cases "fz_mm_per_tooth_by_diameter (material c)")
     (auto simp add: getChiploadRange_def Let_def split: option.splits)

lemma calculate_None:
  "calculate c = None \<longleftrightarrow> fz_mm_per_tooth_by_diameter (material c) = []"
  using getChiploadRange_None [of c "getEffectiveDiameter c"]
  by (auto simp add: calculate_def split: option.splits)

text \<open>
  C10. For every request, \<^verbatim>\<open>calculate\<close> with a user depth-of-cut override and without
  one report the same radial engagement \<^verbatim>\<open>ae_mm\<close>; the override replaces only the axial
  engagement: the reported \<^verbatim>\<open>ap_mm\<close> is the override, rounded to two decimals. Both runs
  return a result unless the material's chip load table is empty.
\<close>

theorem user_doc_override_keeps_ae:
  "map_option r_ae_mm (calculate (c\<lparr>userDOC := Some doc\<rparr>)) =
     map_option r_ae_mm (calculate (c\<lparr>userDOC := None\<rparr>)) \<and>
   map_option r_ap_mm (calculate (c\<lparr>userDOC := Some doc\<rparr>)) =
     map_option (\<lambda>r. parseFloat_toFixed 2 doc) (calculate (c\<lparr>userDOC := None\<rparr>)) \<and>
   (calculate (c\<lparr>userDOC := Some doc\<rparr>) = None \<longleftrightarrow>
      fz_mm_per_tooth_by_diameter (material c) = [])"
  using calculate_None [of "c\<lparr>userDOC := Some doc\<rparr>"]
  by (simp add: calculate_def report_def l_ae_run l_ap_run Let_def getEffectiveDiameter_userDOC
      getChiploadRange_userDOC getBaseEngagementParams_userDOC split: option.splits)

subsection \<open>The spindle speed stays in range\<close>

lemma resolveRPM_in_range:
  assumes "rpm_min (spindle c) \<le> rpm_max (spindle c)"
  shows "rpm_min (spindle c) \<le> l_rpm (resolveRPM c s) \<and> l_rpm (resolveRPM c s) \<le> rpm_max (spindle c)"
  using assms by (simp add: resolveRPM_def Let_def)

lemma l_rpm_beforeLimiting: "l_rpm (beforeLimiting c fzRange) = l_rpm (resolveRPM c start)"
  by (simp add: beforeLimiting_def beforeThinning_def frames)

lemma l_powerAvailable_beforeLimiting:
  "l_powerAvailable (beforeLimiting c fzRange) = getSpindlePowerAtRPM c (l_rpm (resolveRPM c start))"
  by (simp add: beforeLimiting_def beforeThinning_def frames powerBudget_def)

text \<open>
  C9. For every request with \<^verbatim>\<open>rpm_min \<le> rpm_max\<close>, the spindle speed that reaches the
  power lookup is inside \<^verbatim>\<open>[rpm_min, rpm_max]\<close>, so the guard of the zero return of
  \<^verbatim>\<open>getSpindlePowerAtRPM\<close> is false there, and the available power the power balancer
  reads is the value of one of the two in-range branches.
\<close>

theorem zero_power_branch_unreachable:
  assumes "rpm_min (spindle c) \<le> rpm_max (spindle c)"
  shows "\<not> (l_rpm (beforeLimiting c fzRange) < rpm_min (spindle c) \<or>
            l_rpm (beforeLimiting c fzRange) > rpm_max (spindle c)) \<and>
         l_powerAvailable (beforeLimiting c fzRange) =
           (if l_rpm (beforeLimiting c fzRange) \<le> base_rpm (spindle c)
            then rated_power_kW (spindle c) * 1000 *
                   (l_rpm (beforeLimiting c fzRange) / base_rpm (spindle c)) *
                   min (l_rpm (beforeLimiting c fzRange) / (rpm_min (spindle c) * 1.5)) 1
            else rated_power_kW (spindle c) * 1000) * 0.85"
proof -
  have r: "rpm_min (spindle c) \<le> l_rpm (beforeLimiting c fzRange)"
          "l_rpm (beforeLimiting c fzRange) \<le> rpm_max (spindle c)"
    using resolveRPM_in_range [OF assms, of start] by (simp_all add: l_rpm_beforeLimiting)
  have p: "l_powerAvailable (beforeLimiting c fzRange) =
             getSpindlePowerAtRPM c (l_rpm (beforeLimiting c fzRange))"
    by (simp add: l_powerAvailable_beforeLimiting l_rpm_beforeLimiting)
  show ?thesis
    using r unfolding p by (simp add: getSpindlePowerAtRPM_def Let_def)
qed

theorem zero_power_branch_unreachable_witness:
  "rpm_min (spindle default_request) \<le> rpm_max (spindle default_request) \<and>
   6000 \<le> l_rpm (beforeLimiting default_request (0.020, 0.050)) \<and>
   l_rpm (beforeLimiting default_request (0.020, 0.050)) \<le> 24000"
proof -
  have h: "rpm_min (spindle default_request) \<le> rpm_max (spindle default_request)"
    by (simp add: default_request_def water_2_2kw_def)
  show ?thesis
    using h zero_power_branch_unreachable [OF h, of "(0.020, 0.050)"]
    by (simp add: default_request_def water_2_2kw_def not_less)
qed

subsection \<open>The spindle power curve\<close>

text \<open>
  C6 as stated fails where it says that the ramp reaches the full rated power at the base
  speed: the spindle \<^verbatim>\<open>dewalt_611\<close> has \<^verbatim>\<open>rpm_min = base_rpm = 16000\<close>, the torque ratio
  there is \<open>16000 / 24000\<close>, and the available power at the base speed is two thirds of
  \<open>1250 * 0.85\<close> watts.
\<close>

theorem full_power_at_base_rpm_counterexample:
  "rpm_min dewalt_611 \<le> base_rpm dewalt_611 \<and> base_rpm dewalt_611 \<le> rpm_max dewalt_611 \<and>
   getSpindlePowerAtRPM (default_request\<lparr>spindle := dewalt_611\<rparr>) (base_rpm dewalt_611) =
     rated_power_kW dewalt_611 * 1000 * 0.85 * (2 / 3) \<and>
   getSpindlePowerAtRPM (default_request\<lparr>spindle := dewalt_611\<rparr>) (base_rpm dewalt_611) \<noteq>
     rated_power_kW dewalt_611 * 1000 * 0.85"
  by (simp add: getSpindlePowerAtRPM_def dewalt_611_def Let_def)

text \<open>
  C6, amended. For every spindle with a positive minimum speed and every speed: outside
  \<^verbatim>\<open>[rpm_min, rpm_max]\<close> the available power is zero; in range and at or below the base
  speed it is rated power (in watts) times \<open>rpm / base_rpm\<close> times the torque ratio
  \<open>min (rpm / (rpm_min * 1.5)) 1\<close>, times 0.85; in range and above the base speed it is the
  rated power times 0.85. The torque ratio is at its cap 1 exactly from \<open>rpm_min * 1.5\<close>
  on, so at a base speed in range the power is the rated power times 0.85 times
  \<open>min (base_rpm / (rpm_min * 1.5)) 1\<close>: the full rated power only when
  \<open>base_rpm \<ge> rpm_min * 1.5\<close>.
\<close>

theorem spindle_power_curve:
  assumes "0 < rpm_min (spindle c)"
  shows "getSpindlePowerAtRPM c rpm =
           (if rpm < rpm_min (spindle c) \<or> rpm > rpm_max (spindle c) then 0
            else if rpm \<le> base_rpm (spindle c)
            then rated_power_kW (spindle c) * 1000 * (rpm / base_rpm (spindle c)) *
                   min (rpm / (rpm_min (spindle c) * 1.5)) 1 * 0.85
            else rated_power_kW (spindle c) * 1000 * 0.85) \<and>
         (min (rpm / (rpm_min (spindle c) * 1.5)) 1 = 1 \<longleftrightarrow> rpm_min (spindle c) * 1.5 \<le> rpm) \<and>
         (rpm_min (spindle c) \<le> base_rpm (spindle c) \<and> base_rpm (spindle c) \<le> rpm_max (spindle c) \<longrightarrow>
            getSpindlePowerAtRPM c (base_rpm (spindle c)) =
              rated_power_kW (spindle c) * 1000 * 0.85 *
                min (base_rpm (spindle c) / (rpm_min (spindle c) * 1.5)) 1)"
proof (intro conjI impI)
  show "getSpindlePowerAtRPM c rpm =
           (if rpm < rpm_min (spindle c) \<or> rpm > rpm_max (spindle c) then 0
            else if rpm \<le> base_rpm (spindle c)
            then rated_power_kW (spindle c) * 1000 * (rpm / base_rpm (spindle c)) *
                   min (rpm / (rpm_min (spindle c) * 1.5)) 1 * 0.85
            else rated_power_kW (spindle c) * 1000 * 0.85)"
    by (simp add: getSpindlePowerAtRPM_def Let_def)
next
  show "min (rpm / (rpm_min (spindle c) * 1.5)) 1 = 1 \<longleftrightarrow> rpm_min (spindle c) * 1.5 \<le> rpm"
    using assms by (simp add: min_def field_simps)
next
  assume b: "rpm_min (spindle c) \<le> base_rpm (spindle c) \<and> base_rpm (spindle c) \<le> rpm_max (spindle c)"
  then have "base_rpm (spindle c) \<noteq> 0"
    using assms by auto
  then show "getSpindlePowerAtRPM c (base_rpm (spindle c)) =
              rated_power_kW (spindle c) * 1000 * 0.85 *
                min (base_rpm (spindle c) / (rpm_min (spindle c) * 1.5)) 1"
    using b by (simp add: getSpindlePowerAtRPM_def Let_def)
qed

theorem spindle_power_curve_witness:
  "0 < rpm_min (spindle (default_request\<lparr>spindle := water_2_2kw\<rparr>)) \<and>
   getSpindlePowerAtRPM (default_request\<lparr>spindle := water_2_2kw\<rparr>) 8000 = 2200 * (2 / 3) * (8 / 9) * 0.85 \<and>
   getSpindlePowerAtRPM (default_request\<lparr>spindle := water_2_2kw\<rparr>) 12000 = 2200 * 0.85 \<and>
   getSpindlePowerAtRPM (default_request\<lparr>spindle := water_2_2kw\<rparr>) 5000 = 0"
proof -
  have h: "0 < rpm_min (spindle (default_request\<lparr>spindle := water_2_2kw\<rparr>))"
    by (simp add: water_2_2kw_def)
  show ?thesis
    using h spindle_power_curve [OF h, of 8000] spindle_power_curve [OF h, of 12000]
      spindle_power_curve [OF h, of 5000]
    by (simp add: water_2_2kw_def)
qed

subsection \<open>Which step appends which diagnostic\<close>

text \<open>The remaining values that no later step changes.\<close>

lemma l_fz_run:
  "l_fz (run c fzRange) = l_fz (chipThinning c (beforeThinning c fzRange))"
  by (simp add: run_def beforeDeflection_def beforeLimiting_def frames)

lemma l_rpm_run: "l_rpm (run c fzRange) = l_rpm (resolveRPM c start)"
  by (simp add: run_def beforeDeflection_def beforeLimiting_def beforeThinning_def frames)

lemma limited_values_run:
  "l_vf (run c fzRange) = l_vf (powerLimiting (beforeLimiting c fzRange))"
  "l_fzAdjusted (run c fzRange) = l_fzAdjusted (powerLimiting (beforeLimiting c fzRange))"
  "l_mrr (run c fzRange) = l_mrr (powerLimiting (beforeLimiting c fzRange))"
  by (simp_all add: run_def beforeDeflection_def frames)

text \<open>What \<^verbatim>\<open>calculate\<close> returns is the report of the last values of the variables.\<close>

lemma calculate_run:
  "calculate c =
     map_option (\<lambda>fzRange. report c (run c fzRange)) (getChiploadRange c (getEffectiveDiameter c))"
  by (simp add: calculate_def split: option.splits)

text \<open>The warning \<^verbatim>\<open>Power limited\<close> and the info diagnostic of the chip thinning are each
  appended by one step only: every other step appends messages that differ from them.\<close>

lemma in_set_append_if:
  "w \<in> set (if b then ws @ [x] else ws) \<longleftrightarrow> w \<in> set ws \<or> (b \<and> w = x)"
  by auto

lemma validateChipload_keeps:
  assumes "w = \<lparr>severity = ''warning'', message = ''Power limited''\<rparr> \<or> severity w = ''info''"
  shows "w \<in> set (validateChipload c fzAdjusted fzRange ws) \<longleftrightarrow> w \<in> set ws"
  using assms by (auto simp add: validateChipload_def Let_def)

lemma addToolSpecificWarnings_keeps:
  assumes "w = \<lparr>severity = ''warning'', message = ''Power limited''\<rparr> \<or> severity w = ''info''"
  shows "w \<in> set (addToolSpecificWarnings c D ap vf cuttingForce ws) \<longleftrightarrow> w \<in> set ws"
  using assms
  by (auto simp add: addToolSpecificWarnings_def Let_def split: option.splits)

lemma finalChecks_keeps:
  assumes "w = \<lparr>severity = ''warning'', message = ''Power limited''\<rparr> \<or> severity w = ''info''"
  shows "w \<in> set (l_warnings (finalChecks c fzRange s)) \<longleftrightarrow> w \<in> set (l_warnings s)"
  by (simp add: finalChecks_def Let_def addToolSpecificWarnings_keeps [OF assms]
      validateChipload_keeps [OF assms])

lemma toolDeflection_keeps:
  assumes "w = \<lparr>severity = ''warning'', message = ''Power limited''\<rparr> \<or> severity w = ''info''"
  shows "w \<in> set (l_warnings (toolDeflection c s)) \<longleftrightarrow> w \<in> set (l_warnings s)"
  using assms by (auto simp add: toolDeflection_def Let_def)

lemma feedRate_keeps:
  assumes "w = \<lparr>severity = ''warning'', message = ''Power limited''\<rparr> \<or> severity w = ''info''"
  shows "w \<in> set (l_warnings (feedRate c s)) \<longleftrightarrow> w \<in> set (l_warnings s)"
  using assms by (auto simp add: feedRate_def Let_def)

lemma resolveEngagement_keeps:
  assumes "w = \<lparr>severity = ''warning'', message = ''Power limited''\<rparr> \<or> severity w = ''info''"
  shows "w \<in> set (l_warnings (resolveEngagement c s)) \<longleftrightarrow> w \<in> set (l_warnings s)"
  using assms
  by (auto simp add: resolveEngagement_def getEngagementParams_def Let_def
      split: option.splits prod.splits if_splits)

lemma resolveRPM_keeps:
  assumes "w = \<lparr>severity = ''warning'', message = ''Power limited''\<rparr> \<or> severity w = ''info''"
  shows "w \<in> set (l_warnings (resolveRPM c s)) \<longleftrightarrow> w \<in> set (l_warnings s)"
  using assms by (auto simp add: resolveRPM_def Let_def)

lemma beforeThinning_keeps:
  assumes "w = \<lparr>severity = ''warning'', message = ''Power limited''\<rparr> \<or> severity w = ''info''"
  shows "w \<notin> set (l_warnings (beforeThinning c fzRange))"
  by (simp add: beforeThinning_def resolveEngagement_keeps [OF assms] nominalChipload_frame
      resolveRPM_keeps [OF assms] start_def)

lemma chipThinning_power_limited:
  "\<lparr>severity = ''warning'', message = ''Power limited''\<rparr> \<in> set (l_warnings (chipThinning c s)) \<longleftrightarrow>
   \<lparr>severity = ''warning'', message = ''Power limited''\<rparr> \<in> set (l_warnings s)"
  by (simp add: chipThinning_def Let_def split: option.splits)

lemma powerLimiting_info:
  "severity w = ''info'' \<Longrightarrow>
   w \<in> set (l_warnings (powerLimiting s)) \<longleftrightarrow> w \<in> set (l_warnings s)"
  by (auto simp add: powerLimiting_def Let_def)

lemma power_limited_run:
  "\<lparr>severity = ''warning'', message = ''Power limited''\<rparr> \<in> set (l_warnings (run c fzRange)) \<longleftrightarrow>
   l_powerRequired (beforeLimiting c fzRange) > l_powerAvailable (beforeLimiting c fzRange) * 0.9"
proof -
  have "\<lparr>severity = ''warning'', message = ''Power limited''\<rparr> \<notin>
          set (l_warnings (beforeLimiting c fzRange))"
    by (simp add: beforeLimiting_def powerBudget_frame feedRate_keeps chipThinning_power_limited
        beforeThinning_keeps)
  then show ?thesis
    by (simp add: run_def beforeDeflection_def finalChecks_keeps toolDeflection_keeps
        cuttingForces_frame powerLimiting_def Let_def)
qed

lemma chip_thinning_info_run:
  "\<lparr>severity = ''info'', message = ''Chip thinning compensation applied''\<rparr> \<in>
     set (l_warnings (run c fzRange)) \<longleftrightarrow>
   (case chip_thinning (material c) of
      None \<Rightarrow> False
    | Some t \<Rightarrow> l_ae (beforeThinning c fzRange) < getEffectiveDiameter c * t)"
proof -
  have "\<lparr>severity = ''info'', message = ''Chip thinning compensation applied''\<rparr> \<notin>
          set (l_warnings (beforeThinning c fzRange))"
    by (simp add: beforeThinning_keeps)
  then show ?thesis
    by (simp add: run_def beforeDeflection_def beforeLimiting_def finalChecks_keeps
        toolDeflection_keeps cuttingForces_frame powerLimiting_info powerBudget_frame
        feedRate_keeps chipThinning_def Let_def split: option.splits)
qed

subsection \<open>Power limiting\<close>

text \<open>What \<^verbatim>\<open>validateSpindle\<close> accepts.\<close>

lemma validateSpindle_ok:
  "validateSpindle sp = [] \<longleftrightarrow>
     0 < rated_power_kW sp \<and> 0 < rpm_min sp \<and> 0 < rpm_max sp \<and> rpm_min sp < rpm_max sp \<and>
     (base_rpm sp = 0 \<or> (rpm_min sp \<le> base_rpm sp \<and> base_rpm sp \<le> rpm_max sp))"
  by (auto simp add: validateSpindle_def)

lemma getSpindlePowerAtRPM_pos:
  assumes v: "validateSpindle (spindle c) = []"
    and lo: "rpm_min (spindle c) \<le> rpm" and hi: "rpm \<le> rpm_max (spindle c)"
  shows "0 < getSpindlePowerAtRPM c rpm"
proof -
  from v have rated: "0 < rated_power_kW (spindle c)" and m: "0 < rpm_min (spindle c)"
    by (simp_all add: validateSpindle_ok)
  from m lo have r: "0 < rpm" by simp
  show ?thesis
  proof (cases "rpm \<le> base_rpm (spindle c)")
    case True
    then have b: "0 < base_rpm (spindle c)" using r by simp
    have t: "0 < min (rpm / (rpm_min (spindle c) * 1.5)) 1"
      using r m by (simp add: min_def)
    define X where "X = rated_power_kW (spindle c) * 1000 * (rpm / base_rpm (spindle c)) *
            min (rpm / (rpm_min (spindle c) * 1.5)) 1"
    have "0 < X"
      unfolding X_def using rated r b t by (intro mult_pos_pos divide_pos_pos) simp_all
    moreover have "getSpindlePowerAtRPM c rpm = X * 0.85"
      using True lo hi by (simp add: getSpindlePowerAtRPM_def Let_def X_def)
    ultimately show ?thesis by simp
  next
    case False
    then show ?thesis
      using rated lo hi by (simp add: getSpindlePowerAtRPM_def Let_def)
  qed
qed

lemma calculateImprovedPower_scale:
  "calculateImprovedPower c ae ap (vf * k) = calculateImprovedPower c ae ap vf * k"
  by (simp add: calculateImprovedPower_def Let_def algebra_simps)

lemma l_powerRequired_beforeLimiting:
  "l_powerRequired (beforeLimiting c fzRange) =
     calculateImprovedPower c (l_ae (beforeLimiting c fzRange)) (l_ap (beforeLimiting c fzRange))
       (l_vf (beforeLimiting c fzRange))"
  by (simp add: beforeLimiting_def powerBudget_def)

lemma powerAvailable_beforeLimiting_pos:
  assumes v: "validateSpindle (spindle c) = []"
  shows "0 < l_powerAvailable (beforeLimiting c fzRange)"
proof -
  from v have "rpm_min (spindle c) \<le> rpm_max (spindle c)"
    by (simp add: validateSpindle_ok)
  from resolveRPM_in_range [OF this, of start] show ?thesis
    by (simp add: l_powerAvailable_beforeLimiting getSpindlePowerAtRPM_pos [OF v])
qed

text \<open>The calculation on the request \<open>slot20\<close> with any rated power \<open>p\<close>, step by step up
  to the power limiting. The chip load range of a 20 mm tool in \<^verbatim>\<open>al_6061_t6\<close> is
  \<open>[0.060, 0.120]\<close>; the rated power of the catalog's spindle is 2.2 kW.\<close>

lemma slot20_rated_catalog: "slot20_rated 2.2 = slot20"
  by (simp add: slot20_rated_def slot20_def default_request_def water_2_2kw_def)

lemma slot20_fields:
  "tool (slot20_rated p) = default_tool\<lparr>diameter_mm := 20, shank_mm := Some 20\<rparr>"
  "cutType (slot20_rated p) = ''slot''" "machine (slot20_rated p) = printnc"
  "spindle (slot20_rated p) = water_2_2kw\<lparr>rated_power_kW := p\<rparr>"
  "material (slot20_rated p) = al_6061_t6" "aggressiveness (slot20_rated p) = 1"
  "userDOC (slot20_rated p) = None"
  by (simp_all add: slot20_rated_def slot20_def default_request_def)

lemma slot20_D: "getEffectiveDiameter (slot20_rated p) = 20"
  by (simp add: getEffectiveDiameter_def slot20_fields default_tool_def)

lemma slot20_z: "getEffectiveFlutes (slot20_rated p) = 4"
  by (simp add: getEffectiveFlutes_def slot20_fields default_tool_def js_or_def)

lemma slot20_chipload:
  "getChiploadRange (slot20_rated p) (getEffectiveDiameter (slot20_rated p)) = Some (0.060, 0.120)"
  unfolding slot20_D
  by (simp add: getChiploadRange_def slot20_fields al_6061_t6_def Let_def)

lemma slot20_nominalRPM: "nominalRPM (slot20_rated p) = 9525 / pi"
  by (simp add: nominalRPM_def slot20_D getSpeedFactor_def speedFactors_def js_or_def Let_def
      slot20_fields al_6061_t6_def)

lemma slot20_resolveRPM:
  "resolveRPM (slot20_rated p) start =
     \<lparr>l_rpm = 6000, l_fz = 0, l_ae = 0, l_ap = 0, l_vf = 0, l_fzAdjusted = 0, l_mrr = 0,
      l_powerRequired = 0, l_powerAvailable = 0, l_cuttingForce = 0, l_deflection = 0,
      l_warnings = [\<lparr>severity = ''warning'', message = ''RPM limited by spindle minimum''\<rparr>]\<rparr>"
proof -
  have "9525 / pi < 6000"
    using pi_ge_two by (simp add: field_simps)
  then show ?thesis
    by (simp add: resolveRPM_def slot20_nominalRPM Let_def slot20_fields water_2_2kw_def start_def)
qed

lemma slot20_engagement: "getEngagementParams (slot20_rated p) 20 ws = ((20, 15), ws)"
  by (simp add: getEngagementParams_def getBaseEngagementParams_def getCutDefinition_def
      maxAp_def js_or_def slot20_fields default_tool_def al_6061_t6_def printnc_def Let_def)

lemma slot20_beforeThinning:
  "beforeThinning (slot20_rated p) (3 / 50, 3 / 25) =
     \<lparr>l_rpm = 6000, l_fz = 9 / 100, l_ae = 20, l_ap = 15, l_vf = 0, l_fzAdjusted = 0, l_mrr = 0,
      l_powerRequired = 0, l_powerAvailable = 0, l_cuttingForce = 0, l_deflection = 0,
      l_warnings = [\<lparr>severity = ''warning'', message = ''RPM limited by spindle minimum''\<rparr>]\<rparr>"
  by (simp add: beforeThinning_def slot20_resolveRPM nominalChipload_def resolveEngagement_def
      slot20_D slot20_engagement js_or_def slot20_fields default_tool_def al_6061_t6_def)

lemma slot20_power: "calculateImprovedPower (slot20_rated p) 20 15 2000 = 5750"
  by (simp add: calculateImprovedPower_def getToolPowerFactor_def js_or_def slot20_fields
      default_tool_def al_6061_t6_def printnc_def Let_def)

lemma slot20_available: "getSpindlePowerAtRPM (slot20_rated p) 6000 = p * (850 / 3)"
  by (simp add: getSpindlePowerAtRPM_def slot20_fields water_2_2kw_def Let_def)

lemma slot20_beforeLimiting:
  "beforeLimiting (slot20_rated p) (3 / 50, 3 / 25) =
     \<lparr>l_rpm = 6000, l_fz = 9 / 100, l_ae = 20, l_ap = 15, l_vf = 2000, l_fzAdjusted = 1 / 12,
      l_mrr = 600000, l_powerRequired = 5750, l_powerAvailable = p * (850 / 3),
      l_cuttingForce = 0, l_deflection = 0,
      l_warnings = [\<lparr>severity = ''warning'', message = ''RPM limited by spindle minimum''\<rparr>,
                    \<lparr>severity = ''warning'', message = ''Feed limited by machine''\<rparr>]\<rparr>"
  by (simp add: beforeLimiting_def slot20_beforeThinning chipThinning_def feedRate_def
      powerBudget_def calculateMRR_def slot20_D slot20_z slot20_power slot20_available
      slot20_fields default_tool_def al_6061_t6_def printnc_def Let_def)

text \<open>
  C1 as stated fails on the bound of the factor. The request \<open>slot20\<close> with a spindle of
  rated power 0 has \<^verbatim>\<open>rpm_min \<le> rpm_max\<close>; its available power is 0 and its required
  power 5750 W, so the step is applied, with the factor 0: the feed rate becomes 0.
\<close>

theorem power_factor_zero_counterexample:
  "rpm_min (spindle (slot20_rated 0)) \<le> rpm_max (spindle (slot20_rated 0)) \<and>
   getChiploadRange (slot20_rated 0) (getEffectiveDiameter (slot20_rated 0)) = Some (0.060, 0.120) \<and>
   l_powerRequired (beforeLimiting (slot20_rated 0) (0.060, 0.120)) = 5750 \<and>
   l_powerAvailable (beforeLimiting (slot20_rated 0) (0.060, 0.120)) = 0 \<and>
   l_powerRequired (beforeLimiting (slot20_rated 0) (0.060, 0.120)) >
     l_powerAvailable (beforeLimiting (slot20_rated 0) (0.060, 0.120)) * 0.9 \<and>
   (l_powerAvailable (beforeLimiting (slot20_rated 0) (0.060, 0.120)) * 0.85) /
     l_powerRequired (beforeLimiting (slot20_rated 0) (0.060, 0.120)) = 0 \<and>
   \<not> 0 < (l_powerAvailable (beforeLimiting (slot20_rated 0) (0.060, 0.120)) * 0.85) /
           l_powerRequired (beforeLimiting (slot20_rated 0) (0.060, 0.120)) \<and>
   l_vf (beforeLimiting (slot20_rated 0) (0.060, 0.120)) = 2000 \<and>
   l_vf (run (slot20_rated 0) (0.060, 0.120)) = 0 \<and>
   \<lparr>severity = ''warning'', message = ''Power limited''\<rparr> \<in>
     set (l_warnings (run (slot20_rated 0) (0.060, 0.120)))"
  using slot20_chipload [of 0]
  by (simp add: power_limited_run limited_values_run slot20_beforeLimiting powerLimiting_def
      slot20_fields water_2_2kw_def Let_def)

text \<open>
  C1, amended. For every request: exactly when the required power exceeds 90% of the
  available power, the feed rate, the adjusted chip load and the removal rate that
  \<^verbatim>\<open>calculate\<close> ends with are their values before the power limiting times the one
  factor \<open>(available * 0.85) / required\<close>, and the warning \<^verbatim>\<open>Power limited\<close> is appended;
  otherwise they are unchanged and the result has no such warning. The result reports these
  values, rounded. If the spindle passes \<^verbatim>\<open>validateSpindle\<close> (positive rated power,
  \<open>0 < rpm_min < rpm_max\<close>, base speed 0 or in range), an applied factor is in \<open>(0, 1]\<close> and
  the required power recomputed at the scaled feed is at most \<open>available * 0.85\<close>.
\<close>

theorem power_limiting_scales_by_one_factor:
  "let s = beforeLimiting c fzRange;
       final = run c fzRange;
       required = calculateImprovedPower c (l_ae s) (l_ap s) (l_vf s);
       available = getSpindlePowerAtRPM c (l_rpm s);
       k = (available * 0.85) / required;
       limited = (required > available * 0.9)
   in l_powerRequired final = required \<and> l_powerAvailable final = available \<and>
      l_vf final = (if limited then l_vf s * k else l_vf s) \<and>
      l_fzAdjusted final = (if limited then l_fzAdjusted s * k else l_fzAdjusted s) \<and>
      l_mrr final = (if limited then l_mrr s * k else l_mrr s) \<and>
      l_warnings (powerLimiting s) =
        (if limited then l_warnings s @ [\<lparr>severity = ''warning'', message = ''Power limited''\<rparr>]
         else l_warnings s) \<and>
      (\<lparr>severity = ''warning'', message = ''Power limited''\<rparr> \<in> set (l_warnings final) \<longleftrightarrow> limited) \<and>
      (validateSpindle (spindle c) = [] \<and> limited \<longrightarrow>
         0 < k \<and> k \<le> 1 \<and>
         calculateImprovedPower c (l_ae final) (l_ap final) (l_vf final) \<le> available * 0.85) \<and>
      map_option (\<lambda>r. (r_feed_mm_min r, r_fz_mm r, r_mrr_mm3_min r, r_warnings r)) (calculate c) =
        map_option (\<lambda>fzRange. (Math_round (l_vf (run c fzRange)),
                       parseFloat_toFixed 4 (l_fzAdjusted (run c fzRange)),
                       Math_round (l_mrr (run c fzRange)), l_warnings (run c fzRange)))
          (getChiploadRange c (getEffectiveDiameter c))"
proof -
  define s where "s = beforeLimiting c fzRange"
  define required where "required = calculateImprovedPower c (l_ae s) (l_ap s) (l_vf s)"
  define available where "available = getSpindlePowerAtRPM c (l_rpm s)"
  define k where "k = (available * 0.85) / required"
  have pr: "l_powerRequired s = required"
    unfolding s_def required_def by (rule l_powerRequired_beforeLimiting)
  have pa: "l_powerAvailable s = available"
    unfolding s_def available_def
    by (simp add: l_powerAvailable_beforeLimiting l_rpm_beforeLimiting)
  have keep: "l_powerRequired (run c fzRange) = required" "l_powerAvailable (run c fzRange) = available"
    "l_ae (run c fzRange) = l_ae s" "l_ap (run c fzRange) = l_ap s"
    using pr pa
    by (simp_all add: run_def beforeDeflection_def finalChecks_def toolDeflection_def
        cuttingForces_def powerLimiting_frame s_def Let_def)
  have lim: "l_vf (powerLimiting s) = (if required > available * 0.9 then l_vf s * k else l_vf s)"
    "l_fzAdjusted (powerLimiting s) =
       (if required > available * 0.9 then l_fzAdjusted s * k else l_fzAdjusted s)"
    "l_mrr (powerLimiting s) = (if required > available * 0.9 then l_mrr s * k else l_mrr s)"
    "l_warnings (powerLimiting s) =
       (if required > available * 0.9
        then l_warnings s @ [\<lparr>severity = ''warning'', message = ''Power limited''\<rparr>]
        else l_warnings s)"
    by (simp_all add: powerLimiting_def pr pa k_def Let_def)
  have fin: "l_vf (run c fzRange) = (if required > available * 0.9 then l_vf s * k else l_vf s)"
    "l_fzAdjusted (run c fzRange) =
       (if required > available * 0.9 then l_fzAdjusted s * k else l_fzAdjusted s)"
    "l_mrr (run c fzRange) = (if required > available * 0.9 then l_mrr s * k else l_mrr s)"
    using lim by (simp_all add: limited_values_run s_def)
  have mem: "\<lparr>severity = ''warning'', message = ''Power limited''\<rparr> \<in> set (l_warnings (run c fzRange))
               \<longleftrightarrow> required > available * 0.9"
    using power_limited_run [of c fzRange] by (simp add: pr pa s_def [symmetric])
  have bound: "0 < k \<and> k \<le> 1 \<and>
      calculateImprovedPower c (l_ae (run c fzRange)) (l_ap (run c fzRange)) (l_vf (run c fzRange))
        \<le> available * 0.85"
    if v: "validateSpindle (spindle c) = []" and l: "required > available * 0.9"
  proof -
    have a: "0 < available"
      using powerAvailable_beforeLimiting_pos [OF v, of fzRange] pa by (simp add: s_def)
    with l have r: "0 < required" by (simp add: field_simps)
    have k0: "0 < k" unfolding k_def using a r by simp
    have k1: "k \<le> 1" unfolding k_def using a r l by (simp add: field_simps)
    have "calculateImprovedPower c (l_ae (run c fzRange)) (l_ap (run c fzRange))
            (l_vf (run c fzRange)) = required * k"
      using l by (simp add: keep fin calculateImprovedPower_scale required_def)
    also have "\<dots> = available * 0.85"
      unfolding k_def using r by simp
    finally show ?thesis using k0 k1 by simp
  qed
  have rep: "map_option (\<lambda>r. (r_feed_mm_min r, r_fz_mm r, r_mrr_mm3_min r, r_warnings r)) (calculate c) =
        map_option (\<lambda>fzRange. (Math_round (l_vf (run c fzRange)),
                       parseFloat_toFixed 4 (l_fzAdjusted (run c fzRange)),
                       Math_round (l_mrr (run c fzRange)), l_warnings (run c fzRange)))
          (getChiploadRange c (getEffectiveDiameter c))"
    by (simp add: calculate_run report_def Let_def option.map_comp comp_def)
  show ?thesis
    unfolding Let_def s_def [symmetric] required_def [symmetric] available_def [symmetric]
      k_def [symmetric]
    using keep(1,2) fin lim(4) mem bound rep by (intro conjI impI) simp_all
qed

theorem power_limiting_scales_by_one_factor_witness:
  "validateSpindle (spindle (slot20_rated 2.2)) = [] \<and>
   getChiploadRange (slot20_rated 2.2) (getEffectiveDiameter (slot20_rated 2.2)) = Some (0.060, 0.120) \<and>
   calculateImprovedPower (slot20_rated 2.2) 20 15 2000 = 5750 \<and>
   getSpindlePowerAtRPM (slot20_rated 2.2) 6000 = 1870 / 3 \<and>
   l_vf (beforeLimiting (slot20_rated 2.2) (0.060, 0.120)) = 2000 \<and>
   l_vf (run (slot20_rated 2.2) (0.060, 0.120)) = 2000 * (3179 / 34500) \<and>
   l_fzAdjusted (run (slot20_rated 2.2) (0.060, 0.120)) = 1 / 12 * (3179 / 34500) \<and>
   l_mrr (run (slot20_rated 2.2) (0.060, 0.120)) = 600000 * (3179 / 34500) \<and>
   \<lparr>severity = ''warning'', message = ''Power limited''\<rparr> \<in>
     set (l_warnings (run (slot20_rated 2.2) (0.060, 0.120))) \<and>
   calculateImprovedPower (slot20_rated 2.2)
     (l_ae (run (slot20_rated 2.2) (0.060, 0.120))) (l_ap (run (slot20_rated 2.2) (0.060, 0.120)))
     (l_vf (run (slot20_rated 2.2) (0.060, 0.120))) \<le> 1870 / 3 * 0.85 \<and>
   map_option r_feed_mm_min (calculate (slot20_rated 2.2)) = Some 184"
proof -
  have h: "validateSpindle (spindle (slot20_rated 2.2)) = []"
    by (simp add: validateSpindle_def slot20_fields water_2_2kw_def)
  have m: "Math_round (12716 / 69) = 184"
    by (simp add: Math_round_def)
  note t = power_limiting_scales_by_one_factor [of "slot20_rated 2.2" "(0.060, 0.120)"]
  have v: "l_vf (run (slot20_rated 2.2) (0.060, 0.120)) = 12716 / 69"
    using t h by (simp add: slot20_beforeLimiting Let_def slot20_power slot20_available)
  have "map_option r_feed_mm_min (calculate (slot20_rated 2.2)) =
          Some (Math_round (l_vf (run (slot20_rated 2.2) (0.060, 0.120))))"
    using slot20_chipload [of "2.2"] by (simp add: calculate_run report_def Let_def)
  then have f: "map_option r_feed_mm_min (calculate (slot20_rated 2.2)) = Some 184"
    by (simp only: v m)
  show ?thesis
    using t h slot20_chipload [of "2.2"] f
    by (simp add: slot20_beforeLimiting Let_def slot20_power slot20_available)
qed

subsection \<open>Chip thinning\<close>

lemma default_request_D: "getEffectiveDiameter default_request = 6"
  by (simp add: getEffectiveDiameter_def default_request_def default_tool_def)

lemma default_chipload:
  "getChiploadRange default_request (getEffectiveDiameter default_request) = Some (0.020, 0.050)"
  unfolding default_request_D
  by (simp add: getChiploadRange_def default_request_def al_6061_t6_def Let_def)

text \<open>The values the chip thinning step starts from, and the feed rate that follows it.\<close>

lemma l_fz_beforeThinning:
  "l_fz (beforeThinning c fzRange) =
     (fst fzRange + snd fzRange) / 2 * aggressiveness c *
       js_or (toolChiploadFactors (material c) (tool_type (tool c))) 1.0"
  by (simp add: beforeThinning_def resolveEngagement_frame nominalChipload_def Let_def)

lemma l_ae_beforeThinning:
  "l_ae (beforeThinning c fzRange) = fst (getBaseEngagementParams c (getEffectiveDiameter c))"
  by (simp add: beforeThinning_def resolveEngagement_ae)

lemma l_vf_beforeLimiting:
  "l_vf (beforeLimiting c fzRange) =
     min (l_rpm (run c fzRange) * getEffectiveFlutes c * l_fz (run c fzRange))
       (min (min (feed_x (max_feed_mm_min (machine c))) (feed_y (max_feed_mm_min (machine c))))
          (feed_z (max_feed_mm_min (machine c))))"
proof -
  have "l_rpm (chipThinning c (beforeThinning c fzRange)) = l_rpm (run c fzRange)"
    by (simp add: l_rpm_run beforeThinning_def frames)
  then show ?thesis
    unfolding l_fz_run beforeLimiting_def
    by (simp add: powerBudget_frame feedRate_def Let_def min_def)
qed

text \<open>
  C5. For every request, with \<open>D\<close> the effective diameter and \<open>ae\<close> the radial engagement
  the engagement step resolves: if and only if the material has a chip thinning threshold
  and \<open>ae\<close> is strictly below \<open>D\<close> times the threshold, the chip thinning step appends the
  info diagnostic \<^verbatim>\<open>Chip thinning compensation applied\<close>, which the result of
  \<^verbatim>\<open>calculate\<close> then holds, and the chip load \<^verbatim>\<open>fz\<close> that \<^verbatim>\<open>calculate\<close> ends with is the
  nominal chip load times \<open>sqrt (D / ae)\<close>; otherwise it is the nominal chip load. The feed
  rate is computed after that, from the chip load so corrected: before the power limiting
  it is \<^verbatim>\<open>rpm * z * fz\<close>, capped by the machine's feed limit. The factor is stated where
  \<open>ae\<close> is positive and \<open>D\<close> is not negative: elsewhere the square root of the source is
  infinite or not a number.
\<close>

theorem chip_thinning_iff_below_threshold:
  "let D = getEffectiveDiameter c;
       ae = fst (getBaseEngagementParams c D);
       fz0 = (fst fzRange + snd fzRange) / 2 * aggressiveness c *
               js_or (toolChiploadFactors (material c) (tool_type (tool c))) 1.0;
       thin = (case chip_thinning (material c) of None \<Rightarrow> False | Some t \<Rightarrow> ae < D * t);
       before = beforeThinning c fzRange;
       final = run c fzRange;
       maxFeed = min (min (feed_x (max_feed_mm_min (machine c))) (feed_y (max_feed_mm_min (machine c))))
                     (feed_z (max_feed_mm_min (machine c)));
       info = \<lparr>severity = ''info'', message = ''Chip thinning compensation applied''\<rparr>
   in l_ae final = ae \<and>
      l_warnings (chipThinning c before) =
        (if thin then l_warnings before @ [info] else l_warnings before) \<and>
      (info \<in> set (l_warnings final) \<longleftrightarrow> thin) \<and>
      (\<not> thin \<longrightarrow> l_fz final = fz0) \<and>
      (thin \<and> 0 < ae \<and> 0 \<le> D \<longrightarrow> l_fz final = fz0 * sqrt (D / ae)) \<and>
      l_vf (beforeLimiting c fzRange) = min (l_rpm final * getEffectiveFlutes c * l_fz final) maxFeed \<and>
      map_option (\<lambda>r. (r_fz_actual_mm r, r_ae_mm r, r_warnings r)) (calculate c) =
        map_option (\<lambda>fzRange. (parseFloat_toFixed 4 (l_fz (run c fzRange)), parseFloat_toFixed 2 ae,
                       l_warnings (run c fzRange)))
          (getChiploadRange c (getEffectiveDiameter c))"
proof -
  define D where "D = getEffectiveDiameter c"
  define ae where "ae = fst (getBaseEngagementParams c D)"
  define thin where
    "thin = (case chip_thinning (material c) of None \<Rightarrow> False | Some t \<Rightarrow> ae < D * t)"
  have a: "l_ae (beforeThinning c fzRange) = ae" for fzRange
    by (simp add: l_ae_beforeThinning ae_def D_def)
  have a': "l_ae (run c fzRange) = ae" for fzRange
    by (simp add: l_ae_run ae_def D_def)
  have w: "l_warnings (chipThinning c (beforeThinning c fzRange)) =
        (if thin then l_warnings (beforeThinning c fzRange) @
                        [\<lparr>severity = ''info'', message = ''Chip thinning compensation applied''\<rparr>]
         else l_warnings (beforeThinning c fzRange))"
    by (simp add: chipThinning_def a thin_def D_def Let_def split: option.splits)
  have m: "\<lparr>severity = ''info'', message = ''Chip thinning compensation applied''\<rparr> \<in>
             set (l_warnings (run c fzRange)) \<longleftrightarrow> thin"
    by (simp add: chip_thinning_info_run a thin_def D_def split: option.splits)
  have f: "l_fz (run c fzRange) =
             (if thin then l_fz (beforeThinning c fzRange) * sqrt (D / ae)
              else l_fz (beforeThinning c fzRange))"
    by (simp add: l_fz_run chipThinning_def a thin_def D_def Let_def split: option.splits)
  have rep: "map_option (\<lambda>r. (r_fz_actual_mm r, r_ae_mm r, r_warnings r)) (calculate c) =
        map_option (\<lambda>fzRange. (parseFloat_toFixed 4 (l_fz (run c fzRange)), parseFloat_toFixed 2 ae,
                       l_warnings (run c fzRange)))
          (getChiploadRange c (getEffectiveDiameter c))"
    by (simp add: calculate_run report_def Let_def option.map_comp comp_def a')
  show ?thesis
    unfolding Let_def D_def [symmetric] ae_def [symmetric] thin_def [symmetric]
    using a' w m f rep l_vf_beforeLimiting [of c fzRange]
    by (simp add: l_fz_beforeThinning D_def)
qed

text \<open>The application's request on the spindle \<^verbatim>\<open>manual_r8\<close>: \<open>ae = 1.8\<close> is below
  \<open>6 * 0.5\<close>, the chip load 0.035 is multiplied by \<open>sqrt (6 / 1.8)\<close>, and the feed at 4000
  rpm with 4 flutes follows it.\<close>

lemma manual_request_rpm: "l_rpm (run manual_request fzRange) = 4000"
proof -
  have "nominalRPM manual_request = 38100 / pi"
    by (simp add: nominalRPM_def getEffectiveDiameter_def getSpeedFactor_def speedFactors_def
        js_or_def manual_request_def default_request_def default_tool_def al_6061_t6_def Let_def)
  moreover have "4000 < 38100 / pi" "\<not> 38100 / pi < 100"
    using pi_less_4 by (simp_all add: field_simps)
  ultimately show ?thesis
    by (simp add: l_rpm_run resolveRPM_def manual_request_def manual_r8_def Let_def)
qed

lemma manual_request_engagement:
  "getEffectiveDiameter manual_request = 6"
  "getBaseEngagementParams manual_request 6 = (1.8, 4.5)"
  by (simp_all add: getEffectiveDiameter_def getBaseEngagementParams_def getCutDefinition_def
      maxAe_def maxAp_def js_or_def manual_request_def default_request_def default_tool_def
      al_6061_t6_def printnc_def Let_def)

theorem chip_thinning_iff_below_threshold_witness:
  "chip_thinning (material manual_request) = Some 0.5 \<and>
   getEffectiveDiameter manual_request = 6 \<and>
   fst (getBaseEngagementParams manual_request 6) = 1.8 \<and>
   getChiploadRange manual_request (getEffectiveDiameter manual_request) = Some (0.020, 0.050) \<and>
   l_fz (run manual_request (0.020, 0.050)) = 0.035 * sqrt (6 / 1.8) \<and>
   \<lparr>severity = ''info'', message = ''Chip thinning compensation applied''\<rparr> \<in>
     set (l_warnings (run manual_request (0.020, 0.050))) \<and>
   l_vf (beforeLimiting manual_request (0.020, 0.050)) = 4000 * 4 * (0.035 * sqrt (6 / 1.8))"
proof -
  have m: "chip_thinning (material manual_request) = Some 0.5"
    "toolChiploadFactors (material manual_request) (tool_type (tool manual_request)) = Some 1"
    "aggressiveness manual_request = 1" "getEffectiveFlutes manual_request = 4"
    "max_feed_mm_min (machine manual_request) = \<lparr>feed_x = 6000, feed_y = 6000, feed_z = 2000\<rparr>"
    by (simp_all add: getEffectiveFlutes_def js_or_def manual_request_def default_request_def
        default_tool_def al_6061_t6_def printnc_def)
  have r: "getChiploadRange manual_request (getEffectiveDiameter manual_request) = Some (0.020, 0.050)"
    unfolding manual_request_engagement
    by (simp add: getChiploadRange_def manual_request_def default_request_def al_6061_t6_def Let_def)
  have q: "sqrt (10 / 3) \<le> 2"
    by (rule real_le_lsqrt) simp_all
  show ?thesis
    using chip_thinning_iff_below_threshold [of manual_request "(0.020, 0.050)"] r q
    by (simp add: m manual_request_engagement manual_request_rpm js_or_def Let_def min_def)
qed

subsection \<open>Decimal strings\<close>

lemma nat_digits_small: "n < 10 \<Longrightarrow> nat_digits n = [digit_char n]"
  by (simp add: nat_digits.simps)

lemma nat_digits_step:
  "10 \<le> n \<Longrightarrow> nat_digits n = nat_digits (n div 10) @ [digit_char (n mod 10)]"
  by (subst nat_digits.simps) simp

lemma nat_digits_nonempty: "nat_digits n \<noteq> []"
  by (subst nat_digits.simps) simp

lemma nat_digits_three:
  assumes "1000 \<le> n"
  shows "nat_digits n = nat_digits (n div 1000) @
           [digit_char (n div 100 mod 10), digit_char (n div 10 mod 10), digit_char (n mod 10)]"
proof -
  have a: "10 \<le> n" "10 \<le> n div 10" "10 \<le> n div 10 div 10"
    using assms by simp_all
  have d: "n div 10 div 10 = n div 100" "n div 100 div 10 = n div 1000"
    by (simp_all add: div_mult2_eq [symmetric])
  show ?thesis
    using nat_digits_step [OF a(1)] nat_digits_step [OF a(2)] nat_digits_step [OF a(3)]
    by (simp add: d)
qed

text \<open>\<^verbatim>\<open>toFixed(3)\<close> writes a sign, the digits of the integer part, a point and exactly
  three decimals, and the number written is nearest to the value.\<close>

lemma toFixed_3_shape:
  "toFixed 3 a =
     (if a < 0 then ''-'' else '''') @ nat_digits (toFixed_n 3 a div 1000) @ ''.'' @
       [digit_char (toFixed_n 3 a div 100 mod 10), digit_char (toFixed_n 3 a div 10 mod 10),
        digit_char (toFixed_n 3 a mod 10)]"
proof -
  define n where "n = toFixed_n 3 a"
  have r: "replicate 3 c = [c, c, c]" "replicate 2 c = [c, c]" for c :: char
    by (simp_all add: numeral_2_eq_2 numeral_3_eq_3)
  consider "n < 10" | "10 \<le> n" "n < 100" | "100 \<le> n" "n < 1000" | "1000 \<le> n"
    by linarith
  then have "(let m = replicate (4 - length (nat_digits n)) (CHR ''0'') @ nat_digits n;
                  k = length m
              in take (k - 3) m @ ''.'' @ drop (k - 3) m) =
             nat_digits (n div 1000) @ ''.'' @
               [digit_char (n div 100 mod 10), digit_char (n div 10 mod 10), digit_char (n mod 10)]"
  proof cases
    case 1
    then show ?thesis
      by (simp add: nat_digits_small Let_def digit_char_def r)
  next
    case 2
    then have "nat_digits n = [digit_char (n div 10), digit_char (n mod 10)]"
      by (simp add: nat_digits_step nat_digits_small)
    with 2 show ?thesis
      by (simp add: nat_digits_small Let_def digit_char_def r)
  next
    case 3
    then have "n div 10 < 100" "10 \<le> n div 10" "n div 10 div 10 < 10" by simp_all
    with 3 have "nat_digits n =
        [digit_char (n div 100), digit_char (n div 10 mod 10), digit_char (n mod 10)]"
      by (simp add: nat_digits_step nat_digits_small div_mult2_eq [symmetric])
    with 3 show ?thesis
      by (simp add: nat_digits_small Let_def digit_char_def r)
  next
    case 4
    have "Suc 0 \<le> length (nat_digits (n div 1000))"
      using nat_digits_nonempty [of "n div 1000"] by (cases "nat_digits (n div 1000)") simp_all
    with 4 show ?thesis
      by (simp add: nat_digits_three Let_def)
  qed
  then show ?thesis
    by (simp add: toFixed_def n_def Let_def)
qed

lemma toFixed_n_nearest: "\<bar>real (toFixed_n f a) - \<bar>a\<bar> * 10 ^ f\<bar> \<le> 1 / 2"
proof -
  have "0 \<le> \<lfloor>\<bar>a\<bar> * 10 ^ f + 1 / 2\<rfloor>"
    by simp
  then have "real (toFixed_n f a) = of_int \<lfloor>\<bar>a\<bar> * 10 ^ f + 1 / 2\<rfloor>"
    by (simp add: toFixed_n_def)
  then show ?thesis
    by linarith
qed

subsection \<open>Tool deflection\<close>

lemma calculateImprovedDeflection_linear:
  "calculateImprovedDeflection c force = force * calculateImprovedDeflection c 1"
  by (simp add: calculateImprovedDeflection_def bendingDeflection_def shearDeflection_def
      holderDeflection_def Let_def algebra_simps)

lemma default_request_unit_deflection:
  "calculateImprovedDeflection default_request 1 = 32303 / (72900000 * pi) + 1 / 500"
  by (simp add: calculateImprovedDeflection_def bendingDeflection_def shearDeflection_def
      holderDeflection_def deflection_L_def deflection_d_def deflection_E_def js_or_def
      default_request_def default_tool_def CARBIDE_YOUNGS_MODULUS_def Let_def)

lemma default_request_unit_deflection_pos: "0 < calculateImprovedDeflection default_request 1"
  unfolding default_request_unit_deflection
  by (intro add_pos_pos divide_pos_pos mult_pos_pos) simp_all

lemma default_request_force_for:
  "calculateImprovedDeflection default_request (force_for default_request d) = d"
  using default_request_unit_deflection_pos
  by (subst calculateImprovedDeflection_linear) (simp add: force_for_def)

text \<open>
  C7 as stated fails on the thresholds themselves. With the application's tool (a flat end
  mill) under the cutting force that deflects it by exactly 0.05 mm the diagnostic is the
  warning, not the danger; under the force that deflects it by exactly 0.02 mm there is no
  diagnostic.
\<close>

theorem deflection_at_threshold_counterexample:
  "tool_type (tool default_request) = ''endmill_flat'' \<and>
   l_deflection (toolDeflection default_request
     (start\<lparr>l_cuttingForce := force_for default_request 0.05\<rparr>)) = 0.05 \<and>
   l_warnings (toolDeflection default_request
     (start\<lparr>l_cuttingForce := force_for default_request 0.05\<rparr>)) =
     [\<lparr>severity = ''warning'', message = ''Moderate deflection: 0.050mm''\<rparr>] \<and>
   l_deflection (toolDeflection default_request
     (start\<lparr>l_cuttingForce := force_for default_request 0.02\<rparr>)) = 0.02 \<and>
   l_warnings (toolDeflection default_request
     (start\<lparr>l_cuttingForce := force_for default_request 0.02\<rparr>)) = []"
proof -
  have t: "tool_type (tool default_request) = ''endmill_flat''"
    by (simp add: default_request_def default_tool_def)
  have f: "toFixed 3 (1 / 20) = ''0.050''"
    by (simp add: toFixed_def toFixed_n_def nat_digits_step nat_digits_small digit_char_def Let_def)
  show ?thesis
    by (simp add: toolDeflection_def default_request_force_for t f Let_def start_def)
qed

lemma scenario_D_deflection: "0.05 < calculateImprovedDeflection scenario_D 80"
proof -
  have "0 \<le> bendingDeflection scenario_D 80" "0 \<le> shearDeflection scenario_D 80"
    by (simp_all add: bendingDeflection_def shearDeflection_def deflection_L_def deflection_d_def
        deflection_E_def js_or_def scenario_D_def default_request_def default_tool_def
        CARBIDE_YOUNGS_MODULUS_def Let_def)
  moreover have "holderDeflection 80 = 0.16"
    by (simp add: holderDeflection_def)
  ultimately show ?thesis
    by (simp add: calculateImprovedDeflection_def)
qed

text \<open>
  C7, amended. The deflection step, from any values of the local variables. For the tool
  types \<^verbatim>\<open>endmill_flat\<close>, \<^verbatim>\<open>endmill_ball\<close> and \<^verbatim>\<open>tapered\<close>: a deflection strictly above
  0.05 mm appends a danger diagnostic, a deflection strictly above 0.02 mm and at most
  0.05 mm appends a warning diagnostic, and a deflection of at most 0.02 mm appends nothing.
  For every other tool type the deflection is 0 and nothing is appended. The message holds
  \<^verbatim>\<open>deflection.toFixed(3)\<close>: a sign, the integer digits, a point and exactly three decimal
  digits, of the multiple of 0.001 nearest to the deflection.
\<close>

theorem deflection_diagnostic_thresholds:
  "let s' = toolDeflection c s;
       d = calculateImprovedDeflection c (l_cuttingForce s);
       shown = toFixed 3 d
   in (if tool_type (tool c) = ''endmill_flat'' \<or> tool_type (tool c) = ''endmill_ball'' \<or>
          tool_type (tool c) = ''tapered''
       then l_deflection s' = d \<and>
            l_warnings s' = l_warnings s @
              (if d > 0.05
               then [\<lparr>severity = ''danger'', message = ''High deflection: '' @ shown @ ''mm''\<rparr>]
               else if d > 0.02
               then [\<lparr>severity = ''warning'',
                      message = ''Moderate deflection: '' @ shown @ ''mm''\<rparr>]
               else [])
       else l_deflection s' = 0 \<and> l_warnings s' = l_warnings s) \<and>
      shown = (if d < 0 then ''-'' else []) @ nat_digits (toFixed_n 3 d div 1000) @ ''.'' @
                [digit_char (toFixed_n 3 d div 100 mod 10), digit_char (toFixed_n 3 d div 10 mod 10),
                 digit_char (toFixed_n 3 d mod 10)] \<and>
      \<bar>real (toFixed_n 3 d) / 1000 - \<bar>d\<bar>\<bar> \<le> 1 / 2000"
proof -
  define d where "d = calculateImprovedDeflection c (l_cuttingForce s)"
  have n: "\<bar>real (toFixed_n 3 d) / 1000 - \<bar>d\<bar>\<bar> \<le> 1 / 2000"
    using toFixed_n_nearest [of 3 d] by (simp add: field_simps abs_le_iff)
  have st: "if tool_type (tool c) = ''endmill_flat'' \<or> tool_type (tool c) = ''endmill_ball'' \<or>
          tool_type (tool c) = ''tapered''
       then l_deflection (toolDeflection c s) = d \<and>
            l_warnings (toolDeflection c s) = l_warnings s @
              (if d > 0.05
               then [\<lparr>severity = ''danger'',
                      message = ''High deflection: '' @ toFixed 3 d @ ''mm''\<rparr>]
               else if d > 0.02
               then [\<lparr>severity = ''warning'',
                      message = ''Moderate deflection: '' @ toFixed 3 d @ ''mm''\<rparr>]
               else [])
       else l_deflection (toolDeflection c s) = 0 \<and> l_warnings (toolDeflection c s) = l_warnings s"
    by (simp add: toolDeflection_def Let_def d_def)
  show ?thesis
    unfolding Let_def d_def [symmetric]
    using st n toFixed_3_shape [of d] by (intro conjI)
qed

theorem deflection_diagnostic_thresholds_witness:
  "tool_type (tool scenario_D) = ''endmill_flat'' \<and>
   0.05 < calculateImprovedDeflection scenario_D 80 \<and>
   l_warnings (toolDeflection scenario_D (start\<lparr>l_cuttingForce := 80\<rparr>)) =
     [\<lparr>severity = ''danger'',
       message = ''High deflection: '' @ toFixed 3 (calculateImprovedDeflection scenario_D 80) @ ''mm''\<rparr>]"
proof -
  have t: "tool_type (tool scenario_D) = ''endmill_flat''"
    by (simp add: scenario_D_def default_request_def default_tool_def)
  show ?thesis
    using deflection_diagnostic_thresholds [of scenario_D "start\<lparr>l_cuttingForce := 80\<rparr>"]
      scenario_D_deflection
    by (simp add: t Let_def start_def)
qed

text \<open>
  C8 as stated fails on the holder term: the calculator multiplies the force by 0.002 mm/N
  whatever the holder, and 0.002 is none of the four constants of
  \<^verbatim>\<open>TOOL_HOLDER_COMPLIANCE\<close>. At 80 N the sum of the three terms differs from the sum
  with each holder type's constant.
\<close>

theorem holder_compliance_counterexample:
  "calculateImprovedDeflection default_request 80 \<noteq>
     bendingDeflection default_request 80 + shearDeflection default_request 80 +
       80 * TOOL_HOLDER_COMPLIANCE COLLET \<and>
   calculateImprovedDeflection default_request 80 \<noteq>
     bendingDeflection default_request 80 + shearDeflection default_request 80 +
       80 * TOOL_HOLDER_COMPLIANCE SHRINK_FIT \<and>
   calculateImprovedDeflection default_request 80 \<noteq>
     bendingDeflection default_request 80 + shearDeflection default_request 80 +
       80 * TOOL_HOLDER_COMPLIANCE HYDRAULIC \<and>
   calculateImprovedDeflection default_request 80 \<noteq>
     bendingDeflection default_request 80 + shearDeflection default_request 80 +
       80 * TOOL_HOLDER_COMPLIANCE POOR_SETUP"
  by (simp add: calculateImprovedDeflection_def holderDeflection_def)

text \<open>
  C8, amended. The total deflection is the sum of the cantilever bending term
  \<open>force * L^3 / (3 * E * I)\<close> with \<open>I = pi * d^4 / 64\<close>, the shear term
  \<open>1.2 * force * L / ((E / 2.6) * A)\<close> with \<open>A = pi * d^2 / 4\<close>, and a holder term
  \<open>force * 0.002\<close>: one fixed compliance of 0.002 mm/N for every tool and holder. Here
  \<open>L\<close> is the stickout (20 when absent), \<open>d\<close> the shank diameter (the tool diameter when
  absent) and \<open>E\<close> is 210000 for an \<^verbatim>\<open>hss\<close> tool and 600000 otherwise.
\<close>

theorem deflection_is_bending_shear_fixed_holder:
  "let L = js_or (stickout_mm (tool c)) 20;
       d = js_or (shank_mm (tool c)) (diameter_mm (tool c));
       E = (if tool_material (tool c) = ''hss'' then 210000 else 600000);
       I = pi * d ^ 4 / 64;
       A = pi * d ^ 2 / 4
   in calculateImprovedDeflection c force =
        force * L ^ 3 / (3 * E * I) + 1.2 * force * L / ((E / 2.6) * A) + force * 0.002 \<and>
      calculateImprovedDeflection c force -
        (bendingDeflection c force + shearDeflection c force) = force * 0.002"
  by (simp add: calculateImprovedDeflection_def bendingDeflection_def shearDeflection_def
      holderDeflection_def deflection_L_def deflection_d_def deflection_E_def
      CARBIDE_YOUNGS_MODULUS_def HSS_YOUNGS_MODULUS_def Let_def)

subsection \<open>Required power\<close>

text \<open>
  C2 as stated fails for the drill: the removal rate that enters the required power is
  \<open>ae * ap * vf\<close> for every tool type, also where \<^verbatim>\<open>calculateMRR\<close> gives the circular
  \<open>(pi * D^2 / 4) * vf\<close>. For a 10 mm drill with \<open>ae = 10\<close>, a depth of cut of 10 and a feed
  of 100 the required power is not the value of the formula taken at \<^verbatim>\<open>calculateMRR\<close>.
\<close>

theorem drill_power_mrr_counterexample:
  "tool_type (tool drill_request) = ''drill'' \<and>
   getEffectiveDiameter drill_request = 10 \<and>
   specific_cutting_energy_J_mm3 (material drill_request) = Some 0.5 \<and>
   calculateMRR drill_request 10 10 10 100 = (pi * 10 * 10 / 4) * 100 \<and>
   calculateImprovedPower drill_request 10 10 100 = 10 * 10 * 100 * 0.5 / 60 * 1.1 * 1.0 * 1.15 \<and>
   calculateImprovedPower drill_request 10 10 100 \<noteq>
     (calculateMRR drill_request 10 10 10 100 * 0.5 / 60) * getToolPowerFactor drill_request *
       K_rigidity (machine drill_request) * 1.15"
proof -
  have d: "tool_type (tool drill_request) = ''drill''"
    by (simp add: drill_request_def)
  have D: "getEffectiveDiameter drill_request = 10"
    by (simp add: getEffectiveDiameter_def drill_request_def Let_def)
  have e: "specific_cutting_energy_J_mm3 (material drill_request) = Some 0.5"
    by (simp add: drill_request_def default_request_def al_6061_t6_def)
  have K: "K_rigidity (machine drill_request) = 1"
    by (simp add: drill_request_def default_request_def printnc_def)
  have p: "calculateImprovedPower drill_request 10 10 100 = 10 * 10 * 100 * 0.5 / 60 * 1.1 * 1.0 * 1.15"
    by (simp add: calculateImprovedPower_def getToolPowerFactor_def d e K js_or_def Let_def)
  have m: "calculateMRR drill_request 10 10 10 100 = (pi * 10 * 10 / 4) * 100"
    by (simp add: calculateMRR_def d)
  have "pi \<noteq> 4" using pi_less_4 by simp
  then have "calculateImprovedPower drill_request 10 10 100 \<noteq>
     (calculateMRR drill_request 10 10 10 100 * 0.5 / 60) * getToolPowerFactor drill_request *
       K_rigidity (machine drill_request) * 1.15"
    unfolding p m K by (simp add: getToolPowerFactor_def d)
  with d D e p m show ?thesis by blast
qed

text \<open>
  C2, amended. For every tool type, the drill included, the required cutting power is
  \<open>(ae * ap * vf * e / 60)\<close> times the tool type's power factor times the machine's
  rigidity factor, plus 15% of that for spindle losses, where \<open>e\<close> is the material's
  specific cutting energy when the material has one (and it is not 0). The removal rate of
  \<^verbatim>\<open>calculateMRR\<close>, which is \<open>(pi * D^2 / 4) * vf\<close> for the drill and \<open>ae * ap * vf\<close>
  otherwise, enters the power only for the tool types other than the drill.
\<close>

theorem required_power_formula:
  assumes "specific_cutting_energy_J_mm3 (material c) = Some e" and "e \<noteq> 0"
  shows "calculateImprovedPower c ae ap vf =
           (ae * ap * vf * e / 60) * getToolPowerFactor c * K_rigidity (machine c) +
           0.15 * ((ae * ap * vf * e / 60) * getToolPowerFactor c * K_rigidity (machine c)) \<and>
         calculateMRR c D ae ap vf =
           (if tool_type (tool c) = ''drill'' then (pi * D\<^sup>2 / 4) * vf else ae * ap * vf) \<and>
         (tool_type (tool c) \<noteq> ''drill'' \<longrightarrow>
            calculateImprovedPower c ae ap vf =
              (calculateMRR c D ae ap vf * e / 60) * getToolPowerFactor c * K_rigidity (machine c) * 1.15)"
  using assms
  by (simp add: calculateImprovedPower_def calculateMRR_def js_or_def Let_def power2_eq_square
      algebra_simps)

theorem required_power_formula_witness:
  "specific_cutting_energy_J_mm3 (material default_request) = Some 0.5 \<and>
   tool_type (tool default_request) \<noteq> ''drill'' \<and>
   calculateMRR default_request 6 1.8 4.5 2000 = 16200 \<and>
   calculateImprovedPower default_request 1.8 4.5 2000 = 155.25"
proof -
  have e: "specific_cutting_energy_J_mm3 (material default_request) = Some 0.5"
    by (simp add: default_request_def al_6061_t6_def)
  have t: "tool_type (tool default_request) \<noteq> ''drill''"
    by (simp add: default_request_def default_tool_def)
  have f: "getToolPowerFactor default_request = 1" "K_rigidity (machine default_request) = 1"
    by (simp_all add: getToolPowerFactor_def default_request_def default_tool_def printnc_def)
  show ?thesis
    using required_power_formula [OF e, of "1.8" "4.5" 2000 6] e t
    by (simp add: f)
qed

subsection \<open>Engagement fractions\<close>

text \<open>
  C4 as stated fails for the radial lookup: with no radial entry for the cut type the
  fraction becomes 0.3, not 1.0, so that \<^verbatim>\<open>maxAe\<close> is \<open>6 * 0.3\<close> for the 6 mm tool.
\<close>

theorem missing_radial_fraction_counterexample:
  "max_radial_engagement_fraction (material plunge_request) (cutType plunge_request) = None \<and>
   max_axial_per_pass_D (material plunge_request) (cutType plunge_request) = None \<and>
   maxAe plunge_request 6 = 6 * 0.3 \<and>
   maxAe plunge_request 6 \<noteq> 6 * 1.0 \<and>
   maxAp plunge_request 6 = 6 * 1.0"
  by (simp add: maxAe_def maxAp_def js_or_def plunge_request_def default_request_def
      al_6061_t6_def)

text \<open>
  C4, amended. When the material has no entry for the requested cut type, the engagement
  resolver still returns a value (it is a total function): the missing radial fraction
  defaults to 0.3 and the missing axial fraction to 1.0, also in the limit the user's depth
  of cut is checked against. For a tool that is neither a drill nor a V-bit and a cut type
  other than \<^verbatim>\<open>slot\<close> the resolved engagement is then
  \<open>ae = min (D * 0.3) (D * 0.3) * radial\<close> and \<open>ap = min (D * 0.75) (D * 1.0) * axial\<close>,
  unless the user's depth of cut replaces \<open>ap\<close>.
\<close>

theorem missing_fraction_defaults:
  assumes "max_radial_engagement_fraction (material c) (cutType c) = None"
    and "max_axial_per_pass_D (material c) (cutType c) = None"
  shows "maxAe c D = D * 0.3 \<and> maxAp c D = D * 1.0 \<and> getMaxAllowableDOC c D = D * 1.0 \<and>
         (tool_type (tool c) \<noteq> ''drill'' \<and> tool_type (tool c) \<noteq> ''vbit'' \<and> cutType c \<noteq> ''slot'' \<longrightarrow>
            fst (getEngagementParams c D ws) =
              (min (D * 0.3) (D * 0.3) * radial (m_aggressiveness (machine c)),
               case userDOC c of
                 Some u \<Rightarrow> u
               | None \<Rightarrow> min (D * 0.75) (D * 1.0) * axial (m_aggressiveness (machine c))))"
  using assms
  by (simp add: maxAe_def maxAp_def getMaxAllowableDOC_def js_or_def getEngagementParams_def
      getBaseEngagementParams_def getCutDefinition_def Let_def split: option.splits)

theorem missing_fraction_defaults_witness:
  "max_radial_engagement_fraction (material plunge_request) (cutType plunge_request) = None \<and>
   max_axial_per_pass_D (material plunge_request) (cutType plunge_request) = None \<and>
   getEngagementParams plunge_request 6 [] = ((1.8, 4.5), [])"
proof -
  have r: "max_radial_engagement_fraction (material plunge_request) (cutType plunge_request) = None"
    and a: "max_axial_per_pass_D (material plunge_request) (cutType plunge_request) = None"
    by (simp_all add: plunge_request_def default_request_def al_6061_t6_def)
  have w: "snd (getEngagementParams plunge_request 6 []) = []"
    by (simp add: getEngagementParams_def plunge_request_def default_request_def Let_def
        split: prod.splits)
  have t: "tool_type (tool plunge_request) = ''endmill_flat''" "cutType plunge_request = ''plunge''"
    "userDOC plunge_request = None" "m_aggressiveness (machine plunge_request) = \<lparr>radial = 1, axial = 1\<rparr>"
    by (simp_all add: plunge_request_def default_request_def default_tool_def printnc_def)
  show ?thesis
    using missing_fraction_defaults [OF r a, of 6 "[]"] r a w
    by (simp add: t prod_eq_iff)
qed

subsection \<open>The cut definition\<close>

text \<open>
  C3. The code at the application's initial request (6 mm flat end mill, \<^verbatim>\<open>al_6061_t6\<close>,
  cut type \<^verbatim>\<open>profile\<close>) and at the same request with the cut type \<^verbatim>\<open>slot\<close>:
  \<^verbatim>\<open>getCutDefinition\<close> gives the range \<open>[0.5, 1.0]\<close> whatever the cut type, so the axial
  engagement is 4.5 mm in both, where the midpoints of the catalog's ranges
  (\<open>[1.0, 1.5]\<close> for \<^verbatim>\<open>profile\<close>, \<open>[0.8, 1.0]\<close> for \<^verbatim>\<open>slot\<close>) give 7.5 mm and 5.4 mm.
\<close>

theorem nominal_ap_fraction_ignores_cut_type:
  "ap_fraction_range (getCutDefinition default_request) = (0.5, 1.0) \<and>
   ap_fraction_range (getCutDefinition (default_request\<lparr>cutType := ''slot''\<rparr>)) = (0.5, 1.0) \<and>
   map_option ap_fraction_range (CUT_TYPES ''profile'') = Some (1.0, 1.5) \<and>
   map_option ap_fraction_range (CUT_TYPES ''slot'') = Some (0.8, 1.0) \<and>
   getBaseEngagementParams default_request 6 = (1.8, 4.5) \<and>
   spec_ap default_request 6 = Some 7.5 \<and>
   getBaseEngagementParams (default_request\<lparr>cutType := ''slot''\<rparr>) 6 = (6, 4.5) \<and>
   spec_ap (default_request\<lparr>cutType := ''slot''\<rparr>) 6 = Some 5.4"
  by (simp add: getCutDefinition_def CUT_TYPES_def cut_def_def spec_ap_def
      spec_nominal_ap_fraction_def getBaseEngagementParams_def maxAe_def maxAp_def js_or_def
      default_request_def default_tool_def al_6061_t6_def printnc_def Let_def)

end
